theory Spec2Isabelle
  imports Main "HOL-Library.Sublist"
begin

section \<open>Strings\<close>

text \<open>
  A Python \<open>str\<close> is modelled as a \<open>string\<close>, one \<open>char\<close> per code point
  (code points below 256). \<open>isspace\<close> lists the code points of that range for which
  Python's \<open>str.isspace\<close> holds; \<open>strip\<close> is \<open>str.strip()\<close> without argument.
  The substring test \<open>a in b\<close> is \<open>sublist a b\<close>.
\<close>

definition isspace :: "char \<Rightarrow> bool" where
  "isspace c = (c \<in> set [CHR 0x09, CHR 0x0A, CHR 0x0B, CHR 0x0C, CHR 0x0D,
                         CHR 0x1C, CHR 0x1D, CHR 0x1E, CHR 0x1F, CHR 0x20,
                         CHR 0x85, CHR 0xA0])"

definition strip :: "string \<Rightarrow> string" where
  "strip s = rev (dropWhile isspace (rev (dropWhile isspace s)))"

text \<open>\<open>str(n)\<close> on an integer, used in the step titles.\<close>

definition digit_char :: "nat \<Rightarrow> char" where
  "digit_char d = char_of (48 + d)"

fun str_nat :: "nat \<Rightarrow> string" where
  "str_nat n = (if n < 10 then [digit_char n] else str_nat (n div 10) @ [digit_char (n mod 10)])"

definition str_int :: "int \<Rightarrow> string" where
  "str_int i = (if i < 0 then CHR ''-'' # str_nat (nat (- i)) else str_nat (nat i))"

section \<open>The external world\<close>

text \<open>
  \<open>subprocess.run\<close> and \<open>shutil.which\<close> are the script's only windows on the
  outside. An environment answers an invocation in a world and gives the next world;
  nothing is assumed about the answers. \<open>stdout\<close> and \<open>stderr\<close> are optional because
  \<open>subprocess.run\<close> leaves them \<open>None\<close> when output is not captured.
  \<open>markup_ok\<close> is the verdict of the Rich library on a string it is given as console
  markup: whether it renders it, or raises \<open>rich.errors.MarkupError\<close>.
\<close>

record invocation =
  args :: "string list"
  capture_output :: bool
  input :: "string option"

record completed_process =
  returncode :: int
  stdout :: "string option"
  stderr :: "string option"

record 'w env =
  which :: "string \<Rightarrow> bool"
  run :: "'w \<Rightarrow> invocation \<Rightarrow> completed_process \<times> 'w"
  markup_ok :: "string \<Rightarrow> bool"

datatype gcp_mode = Own | Shared

text \<open>
  What the script prints that tells how a run went. The description paragraph, the echo of
  the command line and the \<open>Running...\<close> line of \<open>run_command\<close> are rendering only and
  are left out of the trace. The names, identifiers and account that the other lines
  quote are taken to hold no markup; the output of a command, which \<open>run_command\<close> prints
  as markup, is not.
\<close>

datatype message =
    Done
  | Captured string
  | Already_exists_skipping
  | Failed
  | Error_panel string
  | Missing_gh
  | Not_authenticated_gh
  | Gh_authenticated
  | Missing_gcloud
  | Not_authenticated_gcloud
  | Gcloud_authenticated string
  | Repo_already_exists string
  | Repo_ready string
  | Reauth_note
  | Project_already_exists string
  | Waiting_for_iam
  | Init_banner string string string gcp_mode int
  | Phase_rule string
  | All_done string string
  | Parser_error string
  | Asset_already_exists string
  | Uploading_demo_asset
  | Upload_done string
  | Upload_failed string

text \<open>
  The Earth Engine objects of upload\_demo\_asset.py. A coordinate is kept as the decimal
  literal of the source; no arithmetic is done on it.
\<close>

record feature =
  polygon :: "(string \<times> string) list list"
  properties :: "(string \<times> string) list"

record export_request =
  collection :: "feature list"
  description :: string
  assetId :: string

datatype ee_call =
    Auth_default "string list"
  | Initialize string
  | GetAsset string
  | CreateAsset string string
  | ExportTableToAsset export_request
  | TaskStart
  | TaskActive
  | TaskStatus

datatype event =
    Header int int string
  | Print message
  | Exec invocation
  | Sleep nat
  | Ee ee_call

record 'w run_state =
  world :: 'w
  trace :: "event list"

datatype error = Exit int | AttributeError | KeyError | MarkupError

type_synonym ('a, 'w) prog = "'w run_state \<Rightarrow> (error + 'a) \<times> 'w run_state"

definition return :: "'a \<Rightarrow> ('a, 'w) prog" where
  "return x s = (Inr x, s)"

definition raise :: "error \<Rightarrow> ('a, 'w) prog" where
  "raise e s = (Inl e, s)"

text \<open>Sequencing: an exception of the first part leaves the rest un-run.\<close>

definition then_do :: "('a, 'w) prog \<Rightarrow> ('a \<Rightarrow> ('b, 'w) prog) \<Rightarrow> ('b, 'w) prog" where
  "then_do m f s = (case m s of (Inl e, s') \<Rightarrow> (Inl e, s') | (Inr x, s') \<Rightarrow> f x s')"

definition emit :: "event \<Rightarrow> (unit, 'w) prog" where
  "emit e s = (Inr (), s\<lparr>trace := trace s @ [e]\<rparr>)"

definition console_print :: "message \<Rightarrow> (unit, 'w) prog" where
  "console_print m = emit (Print m)"

definition time_sleep :: "nat \<Rightarrow> (unit, 'w) prog" where
  "time_sleep n = emit (Sleep n)"

definition subprocess_run :: "'w env \<Rightarrow> invocation \<Rightarrow> (completed_process, 'w) prog" where
  "subprocess_run E call s =
     (Inr (fst (run E (world s) call)),
      \<lparr>world = snd (run E (world s) call), trace = trace s @ [Exec call]\<rparr>)"

text \<open>The exit status of the process: \<open>typer.Exit(code)\<close> gives \<open>code\<close>, an uncaught
  exception 1, a normal return 0.\<close>

fun process_exit_code :: "error + 'a \<Rightarrow> int" where
  "process_exit_code (Inr _) = 0"
| "process_exit_code (Inl (Exit c)) = c"
| "process_exit_code (Inl AttributeError) = 1"
| "process_exit_code (Inl KeyError) = 1"
| "process_exit_code (Inl MarkupError) = 1"

section \<open>init\_repo.py: helpers\<close>

definition SHARED_GCP_PROJECT :: string where
  "SHARED_GCP_PROJECT = ''goog-rle-assessments''"

definition SHARED_SA_NAME :: string where
  "SHARED_SA_NAME = ''github-actions-rle''"

definition SA_NAME :: string where
  "SA_NAME = ''github-actions''"

definition TEMPLATE_REPO :: string where
  "TEMPLATE_REPO = ''RLE-Assessment/TEMPLATE-rle-assessment''"

definition step_header :: "int \<Rightarrow> int \<Rightarrow> string \<Rightarrow> (unit, 'w) prog" where
  "step_header step tot title = emit (Header step tot title)"

definition is_already_exists_error :: "string \<Rightarrow> bool" where
  "is_already_exists_error err = (sublist ''ALREADY_EXISTS'' err \<or> sublist ''already exists'' err)"

text \<open>\<open>result.stdout.strip()\<close>; on \<open>None\<close> it is Python's AttributeError.\<close>

definition stdout_strip :: "completed_process \<Rightarrow> (string, 'w) prog" where
  "stdout_strip result =
     (case stdout result of None \<Rightarrow> raise AttributeError | Some out \<Rightarrow> return (strip out))"

definition discard :: "('a, 'w) prog \<Rightarrow> (unit, 'w) prog" where
  "discard m = then_do m (\<lambda>_. return ())"

text \<open>
  Printing the output of a command. Rich reads the string as console markup and raises
  \<open>MarkupError\<close> at a closing tag that closes nothing; nothing is printed then. A tag
  begins with \<open>[\<close>, so a text without that character is printed as it is, and between the
  \<open>[dim]\<close> and \<open>[/dim]\<close> of the line that shows captured output it adds no tag. On a
  text with \<open>[\<close> the verdict is the library's.
\<close>

definition renders :: "'w env \<Rightarrow> string \<Rightarrow> bool" where
  "renders E text = (CHR ''['' \<notin> set text \<or> markup_ok E text)"

definition renders_dim :: "'w env \<Rightarrow> string \<Rightarrow> bool" where
  "renders_dim E text =
     (CHR ''['' \<notin> set text \<or> markup_ok E (''  [dim]'' @ text @ ''[/dim]''))"

definition print_markup :: "bool \<Rightarrow> message \<Rightarrow> (unit, 'w) prog" where
  "print_markup accepted m = (if accepted then console_print m else raise MarkupError)"

text \<open>A \<open>for\<close> loop over a list; an exception in the body ends it.\<close>

fun for_each :: "'a list \<Rightarrow> ('a \<Rightarrow> (unit, 'w) prog) \<Rightarrow> (unit, 'w) prog" where
  "for_each [] body = return ()"
| "for_each (x # xs) body = then_do (body x) (\<lambda>_. for_each xs body)"

text \<open>
  \<open>run_command(cmd, step, total, title, description, capture, input_data, skip_if_exists)\<close>;
  the description is only printed and is not a parameter here. The captured output
  (line 114) and the error text in its panel (line 121) are printed as markup.
\<close>

definition run_command ::
  "'w env \<Rightarrow> string list \<Rightarrow> int \<Rightarrow> int \<Rightarrow> string \<Rightarrow> bool \<Rightarrow> string option \<Rightarrow> bool
     \<Rightarrow> (completed_process, 'w) prog" where
  "run_command E cmd step tot title capture input_data skip_if_exists =
     then_do (step_header step tot title) (\<lambda>_.
     then_do (subprocess_run E
                \<lparr>args = cmd, capture_output = (capture \<or> skip_if_exists), input = input_data\<rparr>)
       (\<lambda>result.
          if returncode result = 0 then
            then_do (console_print Done) (\<lambda>_.
            then_do (if capture then
                       then_do (stdout_strip result) (\<lambda>out.
                         if out \<noteq> [] then print_markup (renders_dim E out) (Captured out)
                         else return ())
                     else return ()) (\<lambda>_.
            return result))
          else if skip_if_exists \<and>
                  is_already_exists_error (case stderr result of None \<Rightarrow> [] | Some e \<Rightarrow> e) then
            then_do (console_print Already_exists_skipping) (\<lambda>_. return result)
          else
            then_do (console_print Failed) (\<lambda>_.
            then_do (case stderr result of
                       None \<Rightarrow> return ()
                     | Some e \<Rightarrow>
                         if e \<noteq> [] \<and> strip e \<noteq> []
                         then print_markup (renders E (strip e)) (Error_panel (strip e))
                         else return ()) (\<lambda>_.
            raise (Exit 1)))))"

section \<open>Prerequisites\<close>

definition gh_auth_status :: invocation where
  "gh_auth_status = \<lparr>args = [''gh'', ''auth'', ''status''], capture_output = True, input = None\<rparr>"

definition gcloud_auth_list :: invocation where
  "gcloud_auth_list =
     \<lparr>args = [''gcloud'', ''auth'', ''list'', ''--filter=status:ACTIVE'', ''--format=value(account)''],
      capture_output = True, input = None\<rparr>"

definition check_prerequisites :: "'w env \<Rightarrow> bool \<Rightarrow> bool \<Rightarrow> (unit, 'w) prog" where
  "check_prerequisites E need_gh need_gcloud =
     then_do (if need_gh then
                if \<not> which E ''gh'' then
                  then_do (console_print Missing_gh) (\<lambda>_. raise (Exit 1))
                else
                  then_do (subprocess_run E gh_auth_status) (\<lambda>result.
                    if returncode result \<noteq> 0 then
                      then_do (console_print Not_authenticated_gh) (\<lambda>_. raise (Exit 1))
                    else console_print Gh_authenticated)
              else return ()) (\<lambda>_.
     if need_gcloud then
       if \<not> which E ''gcloud'' then
         then_do (console_print Missing_gcloud) (\<lambda>_. raise (Exit 1))
       else
         then_do (subprocess_run E gcloud_auth_list) (\<lambda>result.
         then_do (if returncode result \<noteq> 0 then return True
                  else then_do (stdout_strip result) (\<lambda>out. return (out = []))) (\<lambda>not_authenticated.
           if not_authenticated then
             then_do (console_print Not_authenticated_gcloud) (\<lambda>_. raise (Exit 1))
           else
             then_do (stdout_strip result) (\<lambda>out. console_print (Gcloud_authenticated out))))
     else return ())"

section \<open>Phase 1: GitHub repository\<close>

definition github_pages_policy :: string where
  \<open>github_pages_policy =
     ''{"deployment_branch_policy": {"protected_branches": false, "custom_branch_policies": true}}''\<close>

definition gh_repo_view :: "string \<Rightarrow> invocation" where
  "gh_repo_view repo_full =
     \<lparr>args = [''gh'', ''repo'', ''view'', repo_full, ''--json'', ''name''],
      capture_output = True, input = None\<rparr>"

definition gh_repo_create :: "string \<Rightarrow> string \<Rightarrow> string list" where
  "gh_repo_create gh_repo_name country_name =
     [''gh'', ''repo'', ''create'', gh_repo_name,
      ''--template='' @ TEMPLATE_REPO,
      ''--description=An IUCN Red List of Ecosystems assessment for '' @ country_name,
      ''--public'',
      ''--include-all-branches'']"

definition gh_pages_environment :: "string \<Rightarrow> string \<Rightarrow> string list" where
  "gh_pages_environment gh_owner gh_repo_name =
     [''gh'', ''api'',
      ''repos/'' @ gh_owner @ ''/'' @ gh_repo_name @ ''/environments/github-pages'',
      ''-X'', ''PUT'',
      ''--input'', ''-'']"

definition gh_deployment_branch :: "string \<Rightarrow> string \<Rightarrow> string list" where
  "gh_deployment_branch gh_owner gh_repo_name =
     [''gh'', ''api'',
      ''repos/'' @ gh_owner @ ''/'' @ gh_repo_name
        @ ''/environments/github-pages/deployment-branch-policies'',
      ''-X'', ''POST'',
      ''-f'', ''name=main'',
      ''-f'', ''type=branch'']"

definition setup_github ::
  "'w env \<Rightarrow> string \<Rightarrow> string \<Rightarrow> string \<Rightarrow> int \<Rightarrow> int \<Rightarrow> (unit, 'w) prog" where
  "setup_github E gh_owner gh_repo_name country_name step_offset tot =
     (let repo_full = gh_owner @ ''/'' @ gh_repo_name in
      then_do (subprocess_run E (gh_repo_view repo_full)) (\<lambda>check.
      then_do (if returncode check = 0 then
                 then_do (step_header (step_offset + 1) tot ''Create GitHub Repository'') (\<lambda>_.
                 console_print (Repo_already_exists repo_full))
               else
                 discard (run_command E (gh_repo_create gh_repo_name country_name)
                            (step_offset + 1) tot ''Create GitHub Repository'' False None False)) (\<lambda>_.
      then_do (run_command E (gh_pages_environment gh_owner gh_repo_name)
                 (step_offset + 2) tot ''Create GitHub Pages Environment''
                 False (Some github_pages_policy) False) (\<lambda>_.
      then_do (run_command E (gh_deployment_branch gh_owner gh_repo_name)
                 (step_offset + 3) tot ''Add 'main' as Deployment Branch'' False None False) (\<lambda>_.
      console_print (Repo_ready (''https://github.com/'' @ gh_owner @ ''/'' @ gh_repo_name)))))))"

section \<open>Phase 2: GCP project\<close>

definition gcloud_describe_project_id :: "string \<Rightarrow> invocation" where
  "gcloud_describe_project_id gcp_project_id =
     \<lparr>args = [''gcloud'', ''projects'', ''describe'', gcp_project_id, ''--format=value(projectId)''],
      capture_output = True, input = None\<rparr>"

definition gcloud_config_set_project :: "string \<Rightarrow> invocation" where
  "gcloud_config_set_project gcp_project_id =
     \<lparr>args = [''gcloud'', ''config'', ''set'', ''project'', gcp_project_id],
      capture_output = True, input = None\<rparr>"

definition gcloud_projects_create :: "string \<Rightarrow> string \<Rightarrow> string list" where
  "gcloud_projects_create gcp_project_id gcp_project_name =
     [''gcloud'', ''projects'', ''create'', gcp_project_id,
      ''--name='' @ gcp_project_name,
      ''--set-as-default'']"

definition gcloud_grant_owner :: "string \<Rightarrow> string \<Rightarrow> string list" where
  "gcloud_grant_owner gcp_project_id active_account =
     [''gcloud'', ''projects'', ''add-iam-policy-binding'', gcp_project_id,
      ''--member=user:'' @ active_account,
      ''--role=roles/owner'']"

text \<open>The names of the list \<open>apis\<close>; the second component of each pair there is the
  reason shown in the description.\<close>

definition apis :: "string list" where
  "apis = [''earthengine.googleapis.com'',
           ''iamcredentials.googleapis.com'',
           ''sts.googleapis.com'',
           ''cloudresourcemanager.googleapis.com'']"

definition gcloud_services_enable :: "string \<Rightarrow> string \<Rightarrow> string list" where
  "gcloud_services_enable api gcp_project_id =
     [''gcloud'', ''services'', ''enable'', api, ''--project='' @ gcp_project_id]"

definition gcloud_create_pool :: "string \<Rightarrow> string list" where
  "gcloud_create_pool gcp_project_id =
     [''gcloud'', ''iam'', ''workload-identity-pools'', ''create'', ''github-pool'',
      ''--project='' @ gcp_project_id,
      ''--location=global'',
      ''--display-name=GitHub Actions Pool'']"

definition gcloud_create_provider :: "string \<Rightarrow> string list" where
  "gcloud_create_provider gcp_project_id =
     [''gcloud'', ''iam'', ''workload-identity-pools'', ''providers'', ''create-oidc'',
      ''github-provider'',
      ''--project='' @ gcp_project_id,
      ''--location=global'',
      ''--workload-identity-pool=github-pool'',
      ''--display-name=GitHub Provider'',
      ''--attribute-mapping=google.subject=assertion.sub,attribute.actor=assertion.actor,attribute.repository=assertion.repository,attribute.repository_owner=assertion.repository_owner'',
      ''--attribute-condition=assertion.repository != '' @ [CHR 0x27, CHR 0x27],
      ''--issuer-uri=https://token.actions.githubusercontent.com'']"

definition gcloud_create_service_account :: "string \<Rightarrow> string list" where
  "gcloud_create_service_account gcp_project_id =
     [''gcloud'', ''iam'', ''service-accounts'', ''create'', SA_NAME,
      ''--project='' @ gcp_project_id,
      ''--display-name=GitHub Actions'']"

definition gcloud_grant_role :: "string \<Rightarrow> string \<Rightarrow> string \<Rightarrow> string list" where
  "gcloud_grant_role gcp_project_id sa_email role =
     [''gcloud'', ''projects'', ''add-iam-policy-binding'', gcp_project_id,
      ''--member=serviceAccount:'' @ sa_email,
      ''--role='' @ role]"

definition gcloud_describe_project_number :: "string \<Rightarrow> string list" where
  "gcloud_describe_project_number gcp_project_id =
     [''gcloud'', ''projects'', ''describe'', gcp_project_id,
      ''--format=value(projectNumber)'']"

definition wif_member :: "string \<Rightarrow> string \<Rightarrow> string \<Rightarrow> string" where
  "wif_member project_number gh_owner gh_repo_name =
     ''principalSet://iam.googleapis.com/''
     @ ''projects/'' @ project_number @ ''/locations/global/''
     @ ''workloadIdentityPools/github-pool/''
     @ ''attribute.repository/'' @ gh_owner @ ''/'' @ gh_repo_name"

definition gcloud_bind_repository :: "string \<Rightarrow> string \<Rightarrow> string \<Rightarrow> string list" where
  "gcloud_bind_repository sa_email project member =
     [''gcloud'', ''iam'', ''service-accounts'', ''add-iam-policy-binding'',
      sa_email,
      ''--project='' @ project,
      ''--role=roles/iam.workloadIdentityUser'',
      ''--member='' @ member]"

definition setup_gcp_own ::
  "'w env \<Rightarrow> string \<Rightarrow> string \<Rightarrow> string \<Rightarrow> string \<Rightarrow> int \<Rightarrow> int \<Rightarrow> (string, 'w) prog" where
  "setup_gcp_own E gcp_project_id gcp_project_name gh_owner gh_repo_name step_offset tot =
     then_do (console_print Reauth_note) (\<lambda>_.
     then_do (subprocess_run E (gcloud_describe_project_id gcp_project_id)) (\<lambda>check.
     then_do (if returncode check = 0 then
                then_do (stdout_strip check) (\<lambda>out. return (out = gcp_project_id))
              else return False) (\<lambda>project_exists.
     then_do (if project_exists then
                then_do (step_header (step_offset + 1) tot ''Create GCP Project'') (\<lambda>_.
                then_do (console_print (Project_already_exists gcp_project_id)) (\<lambda>_.
                discard (subprocess_run E (gcloud_config_set_project gcp_project_id))))
              else
                discard (run_command E (gcloud_projects_create gcp_project_id gcp_project_name)
                           (step_offset + 1) tot ''Create GCP Project'' False None False)) (\<lambda>_.
     then_do (subprocess_run E gcloud_auth_list) (\<lambda>acct_result.
     then_do (stdout_strip acct_result) (\<lambda>active_account.
     then_do (run_command E (gcloud_grant_owner gcp_project_id active_account)
                (step_offset + 2) tot ''Ensure Owner Permissions'' False None False) (\<lambda>_.
     then_do (console_print Waiting_for_iam) (\<lambda>_.
     then_do (time_sleep 30) (\<lambda>_.
     then_do (for_each (enumerate 0 apis) (\<lambda>(i, api).
                discard (run_command E (gcloud_services_enable api gcp_project_id)
                           (step_offset + 3) tot
                           (''Enable API ('' @ str_int (int i + 1) @ ''/''
                              @ str_int (int (length apis)) @ '')'')
                           False None False))) (\<lambda>_.
     then_do (run_command E (gcloud_create_pool gcp_project_id)
                (step_offset + 4) tot ''Create Workload Identity Pool'' False None True) (\<lambda>_.
     then_do (run_command E (gcloud_create_provider gcp_project_id)
                (step_offset + 5) tot ''Create OIDC Provider'' False None True) (\<lambda>_.
     then_do (run_command E (gcloud_create_service_account gcp_project_id)
                (step_offset + 6) tot ''Create Service Account'' False None True) (\<lambda>_.
     (let sa_email = SA_NAME @ ''@'' @ gcp_project_id @ ''.iam.gserviceaccount.com'' in
     then_do (run_command E (gcloud_grant_role gcp_project_id sa_email ''roles/earthengine.writer'')
                (step_offset + 7) tot ''Grant IAM Roles (1/2)'' False None False) (\<lambda>_.
     then_do (run_command E
                (gcloud_grant_role gcp_project_id sa_email ''roles/serviceusage.serviceUsageConsumer'')
                (step_offset + 7) tot ''Grant IAM Roles (2/2)'' False None False) (\<lambda>_.
     then_do (run_command E (gcloud_describe_project_number gcp_project_id)
                (step_offset + 8) tot ''Get GCP Project Number'' True None False) (\<lambda>result.
     then_do (stdout_strip result) (\<lambda>project_number.
     (let member = wif_member project_number gh_owner gh_repo_name in
     then_do (run_command E (gcloud_bind_repository sa_email gcp_project_id member)
                (step_offset + 8) tot ''Bind Repository to Service Account'' False None False) (\<lambda>_.
     return project_number))))))))))))))))))))"

definition setup_gcp_shared ::
  "'w env \<Rightarrow> string \<Rightarrow> string \<Rightarrow> int \<Rightarrow> int \<Rightarrow> (string, 'w) prog" where
  "setup_gcp_shared E gh_owner gh_repo_name step_offset tot =
     then_do (run_command E (gcloud_describe_project_number SHARED_GCP_PROJECT)
                (step_offset + 1) tot ''Get Shared Project Number'' True None False) (\<lambda>result.
     then_do (stdout_strip result) (\<lambda>project_number.
     (let sa_email = SHARED_SA_NAME @ ''@'' @ SHARED_GCP_PROJECT @ ''.iam.gserviceaccount.com'';
          member = wif_member project_number gh_owner gh_repo_name in
     then_do (run_command E (gcloud_bind_repository sa_email SHARED_GCP_PROJECT member)
                (step_offset + 2) tot ''Add IAM Binding to Shared Project'' False None False) (\<lambda>_.
     return project_number))))"

definition setup_gcp ::
  "'w env \<Rightarrow> string \<Rightarrow> string \<Rightarrow> string \<Rightarrow> string \<Rightarrow> gcp_mode \<Rightarrow> int \<Rightarrow> int option
     \<Rightarrow> (string, 'w) prog" where
  "setup_gcp E gcp_project_id gcp_project_name gh_owner gh_repo_name mode step_offset tot =
     (if mode = Own then
        (let final_total = (case tot of Some t \<Rightarrow> t | None \<Rightarrow> 7) in
         setup_gcp_own E gcp_project_id gcp_project_name gh_owner gh_repo_name
           step_offset final_total)
      else
        (let final_total = (case tot of Some t \<Rightarrow> t | None \<Rightarrow> 2) in
         setup_gcp_shared E gh_owner gh_repo_name step_offset final_total))"

section \<open>Phase 3: GitHub secrets\<close>

definition gh_secret_set :: "string \<Rightarrow> string \<Rightarrow> string \<Rightarrow> string list" where
  "gh_secret_set name repo body =
     [''gh'', ''secret'', ''set'', name,
      ''--repo'', repo,
      ''--body'', body]"

definition setup_secrets ::
  "'w env \<Rightarrow> string \<Rightarrow> string \<Rightarrow> string \<Rightarrow> gcp_mode \<Rightarrow> string \<Rightarrow> int \<Rightarrow> int
     \<Rightarrow> (unit, 'w) prog" where
  "setup_secrets E gh_owner gh_repo_name gcp_project_id mode project_number step_offset tot =
     (let (wif_provider, sa_email) =
            (if mode = Own then
               (''projects/'' @ project_number @ ''/locations/global/''
                  @ ''workloadIdentityPools/github-pool/providers/github-provider'',
                SA_NAME @ ''@'' @ gcp_project_id @ ''.iam.gserviceaccount.com'')
             else
               (''projects/'' @ project_number @ ''/locations/global/''
                  @ ''workloadIdentityPools/github-pool/providers/github-provider'',
                SHARED_SA_NAME @ ''@'' @ SHARED_GCP_PROJECT @ ''.iam.gserviceaccount.com''));
          repo = gh_owner @ ''/'' @ gh_repo_name in
      then_do (run_command E (gh_secret_set ''GCP_WORKLOAD_IDENTITY_PROVIDER'' repo wif_provider)
                 (step_offset + 1) tot ''Set GCP_WORKLOAD_IDENTITY_PROVIDER Secret''
                 False None False) (\<lambda>_.
      discard (run_command E (gh_secret_set ''GCP_SERVICE_ACCOUNT'' repo sa_email)
                 (step_offset + 2) tot ''Set GCP_SERVICE_ACCOUNT Secret'' False None False)))"

section \<open>The commands of the Typer app\<close>

definition cmd_all ::
  "'w env \<Rightarrow> string \<Rightarrow> string \<Rightarrow> string \<Rightarrow> string \<Rightarrow> string \<Rightarrow> gcp_mode \<Rightarrow> (unit, 'w) prog" where
  "cmd_all E country_name gcp_project_id gcp_project_name gh_owner gh_repo_name mode =
     (let github_steps = 3;
          gcp_steps = (if mode = Own then 8 else 2);
          secret_steps = 2;
          tot = github_steps + gcp_steps + secret_steps in
      then_do (console_print
                 (Init_banner country_name (gh_owner @ ''/'' @ gh_repo_name) gcp_project_id mode tot))
        (\<lambda>_.
      then_do (check_prerequisites E True True) (\<lambda>_.
      then_do (console_print (Phase_rule ''Phase 1: GitHub Repository Setup'')) (\<lambda>_.
      then_do (setup_github E gh_owner gh_repo_name country_name 0 tot) (\<lambda>_.
      then_do (console_print (Phase_rule ''Phase 2: GCP Project Setup'')) (\<lambda>_.
      then_do (setup_gcp E gcp_project_id gcp_project_name gh_owner gh_repo_name mode
                 github_steps (Some tot)) (\<lambda>project_number.
      then_do (console_print (Phase_rule ''Phase 3: GitHub Secrets'')) (\<lambda>_.
      then_do (setup_secrets E gh_owner gh_repo_name gcp_project_id mode project_number
                 (github_steps + gcp_steps) tot) (\<lambda>_.
      console_print (All_done gh_owner gh_repo_name))))))))))"

definition github :: "'w env \<Rightarrow> string \<Rightarrow> string \<Rightarrow> string \<Rightarrow> (unit, 'w) prog" where
  "github E country_name gh_owner gh_repo_name =
     then_do (check_prerequisites E True False) (\<lambda>_.
     setup_github E gh_owner gh_repo_name country_name 0 3)"

definition gcp ::
  "'w env \<Rightarrow> string \<Rightarrow> string \<Rightarrow> string \<Rightarrow> string \<Rightarrow> gcp_mode \<Rightarrow> (unit, 'w) prog" where
  "gcp E gcp_project_id gcp_project_name gh_owner gh_repo_name mode =
     then_do (check_prerequisites E False True) (\<lambda>_.
     discard (setup_gcp E gcp_project_id gcp_project_name gh_owner gh_repo_name mode 0 None))"

definition secrets ::
  "'w env \<Rightarrow> string \<Rightarrow> string \<Rightarrow> string \<Rightarrow> gcp_mode \<Rightarrow> string \<Rightarrow> (unit, 'w) prog" where
  "secrets E gh_owner gh_repo_name gcp_project_id mode project_number =
     then_do (check_prerequisites E True False) (\<lambda>_.
     setup_secrets E gh_owner gh_repo_name gcp_project_id mode project_number 0 2)"

text \<open>The Typer app: one sub-command per invocation, with its parsed options.\<close>

datatype command =
    Cmd_all string string string string string gcp_mode
  | Cmd_github string string string
  | Cmd_gcp string string string string gcp_mode
  | Cmd_secrets string string string gcp_mode string

fun app :: "'w env \<Rightarrow> command \<Rightarrow> (unit, 'w) prog" where
  "app E (Cmd_all country_name gcp_project_id gcp_project_name gh_owner gh_repo_name mode) =
     cmd_all E country_name gcp_project_id gcp_project_name gh_owner gh_repo_name mode"
| "app E (Cmd_github country_name gh_owner gh_repo_name) =
     github E country_name gh_owner gh_repo_name"
| "app E (Cmd_gcp gcp_project_id gcp_project_name gh_owner gh_repo_name mode) =
     gcp E gcp_project_id gcp_project_name gh_owner gh_repo_name mode"
| "app E (Cmd_secrets gh_owner gh_repo_name gcp_project_id mode project_number) =
     secrets E gh_owner gh_repo_name gcp_project_id mode project_number"

section \<open>upload\_demo\_asset.py\<close>

text \<open>
  The Earth Engine SDK as the script uses it. \<open>getAsset\<close> and \<open>createAsset\<close> answer
  \<open>True\<close> when the call returns and \<open>False\<close> when it raises \<open>ee.EEException\<close>, the
  one exception the script catches. \<open>google.auth.default\<close>, \<open>ee.Initialize\<close>, the
  construction of the export task and \<open>task.start\<close> are taken to return.
\<close>

record 'w ee_env =
  getAsset :: "'w \<Rightarrow> string \<Rightarrow> bool \<times> 'w"
  createAsset :: "'w \<Rightarrow> string \<Rightarrow> string \<Rightarrow> bool \<times> 'w"
  task_start :: "'w \<Rightarrow> export_request \<Rightarrow> 'w"
  task_active :: "'w \<Rightarrow> bool \<times> 'w"
  task_status :: "'w \<Rightarrow> (string \<rightharpoonup> string) \<times> 'w"

text \<open>A program that may not return: \<open>None\<close> is a run that never ends.\<close>

type_synonym ('a, 'w) nprog = "'w run_state \<Rightarrow> ((error + 'a) \<times> 'w run_state) option"

definition lift :: "('a, 'w) prog \<Rightarrow> ('a, 'w) nprog" where
  "lift m s = Some (m s)"

definition then_may :: "('a, 'w) nprog \<Rightarrow> ('a \<Rightarrow> ('b, 'w) nprog) \<Rightarrow> ('b, 'w) nprog" where
  "then_may m f s =
     (case m s of
        None \<Rightarrow> None
      | Some (Inl e, s') \<Rightarrow> Some (Inl e, s')
      | Some (Inr x, s') \<Rightarrow> f x s')"

definition ee_getAsset :: "'w ee_env \<Rightarrow> string \<Rightarrow> (bool, 'w) prog" where
  "ee_getAsset E asset_id s =
     (Inr (fst (getAsset E (world s) asset_id)),
      \<lparr>world = snd (getAsset E (world s) asset_id), trace = trace s @ [Ee (GetAsset asset_id)]\<rparr>)"

definition ee_createAsset :: "'w ee_env \<Rightarrow> string \<Rightarrow> string \<Rightarrow> (bool, 'w) prog" where
  "ee_createAsset E type asset_id s =
     (Inr (fst (createAsset E (world s) type asset_id)),
      \<lparr>world = snd (createAsset E (world s) type asset_id),
       trace = trace s @ [Ee (CreateAsset type asset_id)]\<rparr>)"

definition ee_task_start :: "'w ee_env \<Rightarrow> export_request \<Rightarrow> (unit, 'w) prog" where
  "ee_task_start E task s =
     (Inr (), \<lparr>world = task_start E (world s) task, trace = trace s @ [Ee TaskStart]\<rparr>)"

definition ee_task_status :: "'w ee_env \<Rightarrow> (string \<rightharpoonup> string, 'w) prog" where
  "ee_task_status E s =
     (Inr (fst (task_status E (world s))),
      \<lparr>world = snd (task_status E (world s)), trace = trace s @ [Ee TaskStatus]\<rparr>)"

text \<open>\<open>while task.active(): time.sleep(2)\<close>\<close>

partial_function (option) poll :: "'w ee_env \<Rightarrow> 'w run_state \<Rightarrow> 'w run_state option" where
  "poll E s =
     (if fst (task_active E (world s)) then
        poll E \<lparr>world = snd (task_active E (world s)),
                trace = trace s @ [Ee TaskActive, Sleep 2]\<rparr>
      else
        Some \<lparr>world = snd (task_active E (world s)), trace = trace s @ [Ee TaskActive]\<rparr>)"

definition polling :: "'w ee_env \<Rightarrow> (unit, 'w) nprog" where
  "polling E s = map_option (\<lambda>s'. (Inr (), s')) (poll E s)"

definition land :: feature where
  "land = \<lparr>polygon = [[(''-0.005'', ''-0.005''), (''0.0'', ''-0.005''),
                       (''0.0'', ''0.005''), (''-0.005'', ''0.005'')]],
           properties = [(''EFG1'', ''T1.1''),
                         (''Glob_Typol'', ''T1.1_NullIsland_forest_D01''),
                         (''ECO_NAME'', ''Null Island Tropical Forest''),
                         (''COD'', ''D01'')]\<rparr>"

definition water :: feature where
  "water = \<lparr>polygon = [[(''0.0'', ''-0.005''), (''0.005'', ''-0.005''),
                        (''0.005'', ''0.005''), (''0.0'', ''0.005'')]],
            properties = [(''EFG1'', ''M1.1''),
                          (''Glob_Typol'', ''M1.1_NullIsland_marine_shelf_D02''),
                          (''ECO_NAME'', ''Null Island Marine Shelf''),
                          (''COD'', ''D02'')]\<rparr>"

text \<open>The local values \<open>asset_id\<close>, \<open>folder_id\<close> and the arguments of
  \<open>ee.batch.Export.table.toAsset\<close>.\<close>

definition demo_asset_id :: "string \<Rightarrow> string" where
  "demo_asset_id project = ''projects/'' @ project @ ''/assets/demo/null_island_ecosystems''"

definition demo_folder_id :: "string \<Rightarrow> string" where
  "demo_folder_id project = ''projects/'' @ project @ ''/assets/demo''"

definition demo_task :: "string \<Rightarrow> export_request" where
  "demo_task asset_id =
     (let fc = [land, water] in
      \<lparr>collection = fc, description = ''null_island_ecosystems'', assetId = asset_id\<rparr>)"

definition upload_demo_asset :: "'w ee_env \<Rightarrow> string \<Rightarrow> (unit, 'w) nprog" where
  "upload_demo_asset E project =
     (let asset_id = demo_asset_id project in
      then_may (lift (emit (Ee (Auth_default [''https://www.googleapis.com/auth/earthengine''])))) (\<lambda>_.
      then_may (lift (emit (Ee (Initialize project)))) (\<lambda>_.
      then_may (lift (ee_getAsset E asset_id)) (\<lambda>found.
        if found then lift (console_print (Asset_already_exists asset_id))
        else
          (let folder_id = demo_folder_id project in
           then_may (lift (ee_createAsset E ''FOLDER'' folder_id)) (\<lambda>_.
           (let task = demo_task asset_id in
           then_may (lift (emit (Ee (ExportTableToAsset task)))) (\<lambda>_.
           then_may (lift (ee_task_start E task)) (\<lambda>_.
           then_may (lift (console_print Uploading_demo_asset)) (\<lambda>_.
           then_may (polling E) (\<lambda>_.
           then_may (lift (ee_task_status E)) (\<lambda>status.
             case status ''state'' of
               None \<Rightarrow> lift (raise KeyError)
             | Some state \<Rightarrow>
                 if state = ''COMPLETED'' then lift (console_print (Upload_done asset_id))
                 else lift (console_print (Upload_failed
                        (case status ''error_message'' of
                           None \<Rightarrow> ''unknown error'' | Some m \<Rightarrow> m)))))))))))))))"

text \<open>
  The \<open>__main__\<close> block: \<open>cli_project\<close> is the value of \<open>--project\<close> when the option is
  given, \<open>env_project\<close> the value of \<open>GOOGLE_CLOUD_PROJECT\<close> when it is set.
  \<open>parser.error\<close> ends the process with status 2.
\<close>

definition main :: "'w ee_env \<Rightarrow> string option \<Rightarrow> string option \<Rightarrow> (unit, 'w) nprog" where
  "main E cli_project env_project =
     (let args_project = (case cli_project of Some p \<Rightarrow> Some p | None \<Rightarrow> env_project);
          parser_error =
            then_may (lift (console_print
                        (Parser_error ''Provide --project or set GOOGLE_CLOUD_PROJECT''))) (\<lambda>_.
            lift (raise (Exit 2)))
      in case args_project of
           None \<Rightarrow> parser_error
         | Some project \<Rightarrow> if project = [] then parser_error else upload_demo_asset E project)"

section \<open>Test doubles\<close>

text \<open>
  The helpers \<open>_ok\<close> and \<open>_fail\<close> of tests/test\_init\_repo.py, and an environment that
  answers like a patched \<open>subprocess.run\<close> with a \<open>side_effect\<close>: every tool is
  installed and the answer depends on the invocation only.
\<close>

definition ok :: "string \<Rightarrow> completed_process" where
  "ok out = \<lparr>returncode = 0, stdout = Some out, stderr = Some []\<rparr>"

definition fail :: "string \<Rightarrow> completed_process" where
  "fail err = \<lparr>returncode = 1, stdout = Some [], stderr = Some err\<rparr>"

text \<open>
  A stand-in for Rich's markup parser, for texts without backslash escapes and with style
  names compared as written. A tag is \<open>[\<close>, a character among \<open>a-z # / @\<close> and the
  characters up to the next \<open>]\<close>, with no \<open>[\<close> among them. An opening tag is pushed;
  \<open>[/name]\<close> must find \<open>name\<close> among the open tags, \<open>[/]\<close> any open tag.
\<close>

definition tag_start :: "char \<Rightarrow> bool" where
  "tag_start c = (c \<in> set ''abcdefghijklmnopqrstuvwxyz#/@'')"

definition tag_text :: "string \<Rightarrow> string option" where
  "tag_text s =
     (let t = takeWhile (\<lambda>x. x \<noteq> CHR '']'' \<and> x \<noteq> CHR ''['') s in
      if t \<noteq> [] \<and> tag_start (hd t) \<and> take 1 (drop (length t) s) = '']'' then Some t
      else None)"

fun rich_accepts :: "string list \<Rightarrow> string \<Rightarrow> bool" where
  "rich_accepts open_tags [] = True"
| "rich_accepts open_tags (c # cs) =
     (if c = CHR ''['' then
        (case tag_text cs of
           None \<Rightarrow> rich_accepts open_tags cs
         | Some t \<Rightarrow>
             if hd t = CHR ''/'' then
               (if strip (tl t) = [] then open_tags \<noteq> [] \<and> rich_accepts (tl open_tags) cs
                else strip (tl t) \<in> set open_tags \<and>
                     rich_accepts (remove1 (strip (tl t)) open_tags) cs)
             else rich_accepts (takeWhile (\<lambda>x. x \<noteq> CHR ''='') t # open_tags) cs)
      else rich_accepts open_tags cs)"

definition mock :: "(invocation \<Rightarrow> completed_process) \<Rightarrow> unit env" where
  "mock side_effect =
     \<lparr>which = (\<lambda>_. True), run = (\<lambda>w c. (side_effect c, w)), markup_ok = rich_accepts []\<rparr>"

definition start :: "unit run_state" where
  "start = \<lparr>world = (), trace = []\<rparr>"

definition plain :: "string list \<Rightarrow> invocation" where
  "plain cmd = \<lparr>args = cmd, capture_output = False, input = None\<rparr>"

definition captured :: "string list \<Rightarrow> invocation" where
  "captured cmd = \<lparr>args = cmd, capture_output = True, input = None\<rparr>"

text \<open>The three creations that \<open>_setup_gcp_own\<close> runs with \<open>skip_if_exists=True\<close>.\<close>

definition reactive_creates :: "string \<Rightarrow> invocation list" where
  "reactive_creates gcp_project_id =
     [captured (gcloud_create_pool gcp_project_id),
      captured (gcloud_create_provider gcp_project_id),
      captured (gcloud_create_service_account gcp_project_id)]"

text \<open>A first run: every \<open>describe\<close> prints the project number, as in
  \<open>test_creates_project_and_returns_number\<close>.\<close>

definition fresh_side_effect :: "invocation \<Rightarrow> completed_process" where
  "fresh_side_effect c =
     (if ''describe'' \<in> set (args c) then ok (''123456789'' @ [CHR 0x0A])
      else ok ''user@example.com'')"

text \<open>A second run on project \<open>proj-id\<close>: the project is found and the pool, the provider
  and the service account are refused as existing.\<close>

definition rerun_side_effect :: "invocation \<Rightarrow> completed_process" where
  "rerun_side_effect c =
     (if c \<in> set (reactive_creates ''proj-id'') then fail ''ALREADY_EXISTS: entity exists''
      else if c = gcloud_describe_project_id ''proj-id'' then ok (''proj-id'' @ [CHR 0x0A])
      else fresh_side_effect c)"

text \<open>The second step of the GitHub phase is refused.\<close>

definition broken_side_effect :: "invocation \<Rightarrow> completed_process" where
  "broken_side_effect c = (if ''PUT'' \<in> set (args c) then fail ''HTTP 403'' else ok [])"

text \<open>An Earth Engine whose world is the number of polls the export task stays active.\<close>

definition ee_fake :: "bool \<Rightarrow> string \<Rightarrow> nat ee_env" where
  "ee_fake asset_exists final_state =
     \<lparr>getAsset = (\<lambda>w asset_id. (asset_exists, w)),
      createAsset = (\<lambda>w type asset_id. (True, w)),
      task_start = (\<lambda>w task. w),
      task_active = (\<lambda>w. (0 < w, w - 1)),
      task_status = (\<lambda>w. ([''state'' \<mapsto> final_state], w))\<rparr>"

section \<open>Reading a trace\<close>

text \<open>The calls to the outside, in order: commands, sleeps and SDK calls.\<close>

fun calls :: "event list \<Rightarrow> event list" where
  "calls [] = []"
| "calls (Print m # es) = calls es"
| "calls (Header step tot title # es) = calls es"
| "calls (e # es) = e # calls es"

fun invocations :: "event list \<Rightarrow> invocation list" where
  "invocations [] = []"
| "invocations (Exec c # es) = c # invocations es"
| "invocations (_ # es) = invocations es"

text \<open>The counters \<open>Step step of total\<close> of the step headers.\<close>

fun headers :: "event list \<Rightarrow> (int \<times> int) list" where
  "headers [] = []"
| "headers (Header step tot title # es) = (step, tot) # headers es"
| "headers (_ # es) = headers es"

fun skip_notices :: "event list \<Rightarrow> message list" where
  "skip_notices [] = []"
| "skip_notices (Print (Repo_already_exists r) # es) = Repo_already_exists r # skip_notices es"
| "skip_notices (Print (Project_already_exists p) # es) =
     Project_already_exists p # skip_notices es"
| "skip_notices (Print Already_exists_skipping # es) = Already_exists_skipping # skip_notices es"
| "skip_notices (_ # es) = skip_notices es"

text \<open>An event that does something, as opposed to a line on the console.\<close>

fun executes :: "event \<Rightarrow> bool" where
  "executes (Header _ _ _) = True"
| "executes (Exec _) = True"
| "executes (Sleep _) = True"
| "executes (Ee _) = True"
| "executes (Print _) = False"

text \<open>
  The world in which the script stands after the events of a trace: only a command
  changes it. The answer to the command at position \<open>i\<close> of a trace \<open>tr\<close> is thus
  \<open>fst (run E (world_after E w (take i tr)) c)\<close>.
\<close>

fun world_after :: "'w env \<Rightarrow> 'w \<Rightarrow> event list \<Rightarrow> 'w" where
  "world_after E w [] = w"
| "world_after E w (Exec c # es) = world_after E (snd (run E w c)) es"
| "world_after E w (Header step tot title # es) = world_after E w es"
| "world_after E w (Print m # es) = world_after E w es"
| "world_after E w (Sleep n # es) = world_after E w es"
| "world_after E w (Ee call # es) = world_after E w es"

text \<open>\<open>result.stderr or ""\<close>\<close>

definition error_text :: "completed_process \<Rightarrow> string" where
  "error_text r = (case stderr r of None \<Rightarrow> [] | Some e \<Rightarrow> e)"

fun skip_notice_next :: "event list \<Rightarrow> bool" where
  "skip_notice_next [] = False"
| "skip_notice_next (e # es) = (e = Print Already_exists_skipping)"

fun is_header :: "event \<Rightarrow> bool" where
  "is_header (Header _ _ _) = True"
| "is_header _ = False"

text \<open>
  A step is a command that directly follows a step header. \<open>track strict E w after_header tr\<close>
  reads a trace from the world \<open>w\<close>: a step whose command exits non-zero is either
  followed by the skip notice, and then its output was captured and its error text says
  that the resource exists, or it is followed by nothing that executes. With \<open>strict\<close>
  the second case is excluded: every step succeeded or was skipped.
\<close>

fun track :: "bool \<Rightarrow> 'w env \<Rightarrow> 'w \<Rightarrow> bool \<Rightarrow> event list \<Rightarrow> bool" where
  "track strict E w after_header [] = True"
| "track strict E w after_header (Header step tot title # es) = track strict E w True es"
| "track strict E w after_header (Exec c # es) =
     (if after_header \<and> returncode (fst (run E w c)) \<noteq> 0 then
        (if skip_notice_next es then
           capture_output c \<and> is_already_exists_error (error_text (fst (run E w c))) \<and>
           track strict E (snd (run E w c)) False es
         else \<not> strict \<and> (\<forall>e \<in> set es. \<not> executes e))
      else track strict E (snd (run E w c)) False es)"
| "track strict E w after_header (Print m # es) = track strict E w False es"
| "track strict E w after_header (Sleep n # es) = track strict E w False es"
| "track strict E w after_header (Ee call # es) = track strict E w False es"

definition closed_segment :: "event list \<Rightarrow> bool" where
  "closed_segment tr = (tr = [] \<or> \<not> is_header (last tr))"

text \<open>
  What every part of the script keeps: its events are consistent with the world, they do
  not end on a step header, a part that returns has run only steps that succeeded or were
  skipped, and a part that raises ends the process with status 1.
\<close>

definition tracked :: "'w env \<Rightarrow> ('a, 'w) prog \<Rightarrow> bool" where
  "tracked E m \<longleftrightarrow>
     (\<forall>s. \<exists>tr. trace (snd (m s)) = trace s @ tr \<and>
           world (snd (m s)) = world_after E (world s) tr \<and>
           closed_segment tr \<and>
           (case fst (m s) of
              Inr _ \<Rightarrow> track True E (world s) False tr
            | Inl e \<Rightarrow> track False E (world s) False tr \<and>
                       process_exit_code (Inl e :: error + unit) = 1))"

text \<open>The world after \<open>n\<close> calls of \<open>task.active()\<close>, and the world in which the polling
  of \<open>upload_demo_asset\<close> starts when the asset is absent.\<close>

fun after_polls :: "'w ee_env \<Rightarrow> nat \<Rightarrow> 'w \<Rightarrow> 'w" where
  "after_polls E 0 w = w"
| "after_polls E (Suc n) w = after_polls E n (snd (task_active E w))"

definition started :: "'w ee_env \<Rightarrow> string \<Rightarrow> 'w \<Rightarrow> 'w" where
  "started E project w =
     task_start E
       (snd (createAsset E (snd (getAsset E w (demo_asset_id project)))
               ''FOLDER'' (demo_folder_id project)))
       (demo_task (demo_asset_id project))"

section \<open>Basic facts\<close>

lemmas prog_defs = return_def raise_def then_do_def emit_def console_print_def time_sleep_def
  subprocess_run_def step_header_def discard_def stdout_strip_def print_markup_def

lemmas command_defs = gcloud_describe_project_id_def gcloud_config_set_project_def
  gcloud_projects_create_def gcloud_grant_owner_def gcloud_services_enable_def
  gcloud_create_pool_def gcloud_create_provider_def gcloud_create_service_account_def
  gcloud_grant_role_def gcloud_describe_project_number_def gcloud_bind_repository_def
  gcloud_auth_list_def gh_auth_status_def gh_repo_view_def gh_repo_create_def
  gh_pages_environment_def gh_deployment_branch_def gh_secret_set_def

lemma calls_append [simp]: "calls (xs @ ys) = calls xs @ calls ys"
  by (induction xs rule: calls.induct) simp_all

lemma invocations_append [simp]: "invocations (xs @ ys) = invocations xs @ invocations ys"
  by (induction xs rule: invocations.induct) simp_all

lemma skip_notices_append [simp]:
  "skip_notices (xs @ ys) = skip_notices xs @ skip_notices ys"
  by (induction xs rule: skip_notices.induct) simp_all

lemma calls_polls [simp]:
  "calls (concat (replicate n [Ee TaskActive, Sleep 2])) =
     concat (replicate n [Ee TaskActive, Sleep 2])"
  by (induction n) simp_all

lemma strip_blank:
  assumes "\<forall>c \<in> set out. isspace c"
  shows "strip out = []"
proof -
  from assms have d: "dropWhile isspace out = []" by simp
  show ?thesis unfolding strip_def d by simp
qed

lemma strip_Nil [simp]: "strip [] = []"
  by (simp add: strip_def)

lemma digit_not_space: "c \<in> set ''0123456789'' \<Longrightarrow> \<not> isspace c"
  by (auto simp add: isspace_def)

lemma digits_render: "set number \<subseteq> set ''0123456789'' \<Longrightarrow> renders_dim E number"
  by (auto simp add: renders_dim_def)

lemma strip_numeric:
  assumes nonempty: "number \<noteq> []"
      and digits: "set number \<subseteq> set ''0123456789''"
      and blank: "\<forall>c \<in> set trailing. isspace c"
  shows "strip (number @ trailing) = number"
proof -
  from digits have solid: "\<not> isspace c" if "c \<in> set number" for c
    using that digit_not_space by blast
  from nonempty obtain a rest where front: "number = a # rest"
    by (cases number) auto
  with solid have "\<not> isspace a" by simp
  with front have left: "dropWhile isspace (number @ trailing) = number @ trailing"
    by simp
  from nonempty obtain b front' where rear: "rev number = b # front'"
    by (cases "rev number") auto
  then have "b \<in> set number"
    by (metis list.set_intros(1) set_rev)
  with solid have "\<not> isspace b" by blast
  with rear have "dropWhile isspace (rev number) = rev number"
    by simp
  moreover have "dropWhile isspace (rev trailing @ rev number) = dropWhile isspace (rev number)"
    using blank by (intro dropWhile_append2) simp
  ultimately have right: "dropWhile isspace (rev trailing @ rev number) = rev number"
    by simp
  show ?thesis
    unfolding strip_def left by (simp add: right)
qed

lemma then_do_cases:
  "then_do m f s =
     (case fst (m s) of Inl e \<Rightarrow> (Inl e, snd (m s)) | Inr x \<Rightarrow> f x (snd (m s)))"
  by (simp add: then_do_def split: prod.splits sum.splits)

text \<open>The three ways a call of \<open>run_command\<close> returns.\<close>

lemma run_command_done:
  assumes "returncode (fst (run E (world s) \<lparr>args = cmd, capture_output = skip, input = inp\<rparr>)) = 0"
  shows "run_command E cmd step tot title False inp skip s =
           (Inr (fst (run E (world s) \<lparr>args = cmd, capture_output = skip, input = inp\<rparr>)),
            \<lparr>world = snd (run E (world s) \<lparr>args = cmd, capture_output = skip, input = inp\<rparr>),
             trace = trace s @ [Header step tot title,
                                Exec \<lparr>args = cmd, capture_output = skip, input = inp\<rparr>,
                                Print Done]\<rparr>)"
  using assms by (simp add: run_command_def prog_defs)

lemma run_command_captured:
  assumes "returncode (fst (run E (world s) \<lparr>args = cmd, capture_output = True, input = inp\<rparr>)) = 0"
      and "stdout (fst (run E (world s) \<lparr>args = cmd, capture_output = True, input = inp\<rparr>))
             = Some out"
      and "renders_dim E (strip out)"
  shows "run_command E cmd step tot title True inp False s =
           (Inr (fst (run E (world s) \<lparr>args = cmd, capture_output = True, input = inp\<rparr>)),
            \<lparr>world = snd (run E (world s) \<lparr>args = cmd, capture_output = True, input = inp\<rparr>),
             trace = trace s @ [Header step tot title,
                                Exec \<lparr>args = cmd, capture_output = True, input = inp\<rparr>,
                                Print Done]
                             @ (if strip out \<noteq> [] then [Print (Captured (strip out))] else [])\<rparr>)"
  using assms by (simp add: run_command_def prog_defs)

lemma run_command_skipped:
  assumes "returncode (fst (run E (world s) \<lparr>args = cmd, capture_output = True, input = inp\<rparr>))
             \<noteq> 0"
      and "stderr (fst (run E (world s) \<lparr>args = cmd, capture_output = True, input = inp\<rparr>))
             = Some e"
      and "is_already_exists_error e"
  shows "run_command E cmd step tot title False inp True s =
           (Inr (fst (run E (world s) \<lparr>args = cmd, capture_output = True, input = inp\<rparr>)),
            \<lparr>world = snd (run E (world s) \<lparr>args = cmd, capture_output = True, input = inp\<rparr>),
             trace = trace s @ [Header step tot title,
                                Exec \<lparr>args = cmd, capture_output = True, input = inp\<rparr>,
                                Print Already_exists_skipping]\<rparr>)"
  using assms by (simp add: run_command_def prog_defs)

lemma not_probe:
  "gcloud_projects_create p n \<noteq> args (gcloud_describe_project_id p)"
  "gcloud_grant_owner p a \<noteq> args (gcloud_describe_project_id p)"
  "gcloud_services_enable api p \<noteq> args (gcloud_describe_project_id p)"
  "gcloud_create_pool p \<noteq> args (gcloud_describe_project_id p)"
  "gcloud_create_provider p \<noteq> args (gcloud_describe_project_id p)"
  "gcloud_create_service_account p \<noteq> args (gcloud_describe_project_id p)"
  "gcloud_grant_role p e r \<noteq> args (gcloud_describe_project_id p)"
  "gcloud_describe_project_number p \<noteq> args (gcloud_describe_project_id p)"
  "gcloud_bind_repository e p m \<noteq> args (gcloud_describe_project_id p)"
  by (simp_all add: command_defs)

lemma not_reactive:
  "gh_auth_status \<notin> set (reactive_creates p)"
  "gcloud_auth_list \<notin> set (reactive_creates p)"
  "gh_repo_view r \<notin> set (reactive_creates p)"
  "gcloud_describe_project_id p \<notin> set (reactive_creates p)"
  "gcloud_config_set_project p \<notin> set (reactive_creates p)"
  "\<lparr>args = c, capture_output = False, input = i\<rparr> \<notin> set (reactive_creates p)"
  "\<lparr>args = gcloud_describe_project_number p, capture_output = True, input = None\<rparr>
     \<notin> set (reactive_creates p)"
  by (simp_all add: reactive_creates_def captured_def command_defs)

lemma returncode_fresh [simp]: "returncode (fresh_side_effect c) = 0"
  by (simp add: fresh_side_effect_def ok_def)

section \<open>run\_command\<close>

text \<open>
  C1. A call of \<open>run_command\<close> with \<open>skip_if_exists=True\<close> whose command exits non-zero
  with an error text containing \<open>ALREADY_EXISTS\<close> or \<open>already exists\<close> returns normally:
  it hands back the completed process, prints the skip notice and raises nothing.
\<close>

theorem run_command_skip_if_exists:
  assumes "r = fst (run E (world s) \<lparr>args = cmd, capture_output = True, input = input_data\<rparr>)"
      and "returncode r \<noteq> 0"
      and "stderr r = Some e"
      and "sublist ''ALREADY_EXISTS'' e \<or> sublist ''already exists'' e"
  shows "fst (run_command E cmd step tot title capture input_data True s) = Inr r \<and>
         trace (snd (run_command E cmd step tot title capture input_data True s)) =
           trace s @ [Header step tot title,
                      Exec \<lparr>args = cmd, capture_output = True, input = input_data\<rparr>,
                      Print Already_exists_skipping]"
  using assms by (simp add: run_command_def prog_defs is_already_exists_error_def)

theorem run_command_skip_if_exists_witness:
  "fst (run_command
          (mock (\<lambda>_. fail ''Service account github-actions already exists within project''))
          [''gcloud'', ''create'', ''thing''] 1 1 ''Create'' False None True start)
     = Inr (fail ''Service account github-actions already exists within project'')"
  using run_command_skip_if_exists
    [of "fail ''Service account github-actions already exists within project''"
        "mock (\<lambda>_. fail ''Service account github-actions already exists within project'')"
        start "[''gcloud'', ''create'', ''thing'']" None
        "''Service account github-actions already exists within project''"
        1 1 "''Create''" False]
  by (simp add: mock_def fail_def start_def sublist_Cons_right)

text \<open>What a call without \<open>skip_if_exists\<close> gives, case by case.\<close>

lemma run_command_without_skip_result:
  assumes "r = fst (run E (world s) \<lparr>args = cmd, capture_output = capture, input = input_data\<rparr>)"
  shows "fst (run_command E cmd step tot title capture input_data False s) =
           (if returncode r = 0 then
              (if capture then
                 (case stdout r of
                    None \<Rightarrow> Inl AttributeError
                  | Some out \<Rightarrow>
                      if strip out = [] \<or> renders_dim E (strip out) then Inr r
                      else Inl MarkupError)
               else Inr r)
            else
              (case stderr r of
                 None \<Rightarrow> Inl (Exit 1)
               | Some e \<Rightarrow>
                   if strip e = [] \<or> renders E (strip e) then Inl (Exit 1)
                   else Inl MarkupError))"
  using assms by (auto simp add: run_command_def prog_defs strip_Nil split: option.splits)

text \<open>
  C2. A call of \<open>run_command\<close> without \<open>skip_if_exists\<close> should raise
  \<open>typer.Exit(code=1)\<close> when the command exits non-zero, and return, leaving the exit
  status 0, when it exits zero. It does not on output that Rich refuses as markup: with
  the error text \<open>Unable to read file [/tmp/key.json]\<close> the call prints \<open>Failed\<close> and
  raises \<open>MarkupError\<close> in place of the exit, and with the captured output
  \<open>see [/tmp/out.txt]\<close> of a command that exited zero it prints \<open>Done\<close> and raises
  \<open>MarkupError\<close>, so that the process ends with status 1.
\<close>

theorem run_command_markup_error:
  "run_command (mock (\<lambda>_. fail ''Unable to read file [/tmp/key.json]''))
     (gcloud_describe_project_number ''p1'') 8 8 ''Get GCP Project Number'' True None False start
     = (Inl MarkupError,
        \<lparr>world = (),
         trace = [Header 8 8 ''Get GCP Project Number'',
                  Exec (captured (gcloud_describe_project_number ''p1'')),
                  Print Failed]\<rparr>) \<and>
   run_command (mock (\<lambda>_. ok ''see [/tmp/out.txt]''))
     (gcloud_describe_project_number ''p1'') 8 8 ''Get GCP Project Number'' True None False start
     = (Inl MarkupError,
        \<lparr>world = (),
         trace = [Header 8 8 ''Get GCP Project Number'',
                  Exec (captured (gcloud_describe_project_number ''p1'')),
                  Print Done]\<rparr>) \<and>
   process_exit_code (Inl MarkupError :: error + completed_process) = 1"
  by (simp add: run_command_def prog_defs mock_def start_def fail_def ok_def captured_def
        renders_def renders_dim_def tag_text_def tag_start_def strip_def isspace_def)

section \<open>Prerequisites\<close>

text \<open>
  C9. With \<open>need_gcloud=True\<close> and gcloud installed, \<open>check_prerequisites\<close> treats the
  user as not authenticated, prints the guidance and exits with code 1, when
  \<open>gcloud auth list\<close> exits non-zero and also when it exits zero with a standard output
  that is empty or only whitespace.
\<close>

theorem gcloud_not_authenticated:
  assumes gh: "need_gh \<longrightarrow> which E ''gh'' \<and> (\<forall>w. returncode (fst (run E w gh_auth_status)) = 0)"
      and installed: "which E ''gcloud''"
      and listing: "\<forall>w. returncode (fst (run E w gcloud_auth_list)) \<noteq> 0 \<or>
                        (\<exists>out. stdout (fst (run E w gcloud_auth_list)) = Some out \<and>
                               (\<forall>c \<in> set out. isspace c))"
  shows "fst (check_prerequisites E need_gh True s) = Inl (Exit 1) \<and>
         last (trace (snd (check_prerequisites E need_gh True s))) = Print Not_authenticated_gcloud"
proof (cases need_gh)
  case True
  with gh have g: "which E ''gh''" "\<And>w. returncode (fst (run E w gh_auth_status)) = 0"
    by simp_all
  from listing have
    "returncode (fst (run E (snd (run E (world s) gh_auth_status)) gcloud_auth_list)) \<noteq> 0 \<or>
     (\<exists>out. stdout (fst (run E (snd (run E (world s) gh_auth_status)) gcloud_auth_list)) = Some out
            \<and> (\<forall>c \<in> set out. isspace c))"
    by blast
  with True g installed show ?thesis
    by (auto simp add: check_prerequisites_def prog_defs strip_blank)
next
  case False
  from listing have
    "returncode (fst (run E (world s) gcloud_auth_list)) \<noteq> 0 \<or>
     (\<exists>out. stdout (fst (run E (world s) gcloud_auth_list)) = Some out
            \<and> (\<forall>c \<in> set out. isspace c))"
    by blast
  with False installed show ?thesis
    by (auto simp add: check_prerequisites_def prog_defs strip_blank)
qed

theorem gcloud_not_authenticated_witness:
  "fst (check_prerequisites (mock (\<lambda>_. ok '' '')) True True start) = Inl (Exit 1) \<and>
   fst (check_prerequisites
          (mock (\<lambda>c. if c = gcloud_auth_list then fail ''error'' else ok [])) False True start)
     = Inl (Exit 1)"
  using gcloud_not_authenticated [of True "mock (\<lambda>_. ok '' '')" start]
        gcloud_not_authenticated
          [of False "mock (\<lambda>c. if c = gcloud_auth_list then fail ''error'' else ok [])" start]
  by (simp add: mock_def ok_def fail_def isspace_def)

section \<open>Step counters\<close>

text \<open>
  C3. The provisioning phase in mode \<open>own\<close> numbers its steps 1 to 8, and the \<open>all\<close>
  command counts 8 steps for it. The standalone \<open>gcp\<close> command passes no total, and
  \<open>setup_gcp\<close> then takes 7: on a first run where every command succeeds the headers read
  \<open>Step 1 of 7\<close> up to \<open>Step 8 of 7\<close>.
\<close>

theorem gcp_own_step_total:
  "headers (trace (snd (app (mock fresh_side_effect)
                          (Cmd_gcp ''proj-id'' ''Proj Name'' ''owner'' ''repo'' Own) start)))
     = [(1, 7), (2, 7), (3, 7), (3, 7), (3, 7), (3, 7), (4, 7), (5, 7), (6, 7), (7, 7), (7, 7),
        (8, 7), (8, 7)]"
  by (simp add: gcp_def check_prerequisites_def setup_gcp_def setup_gcp_own_def run_command_def
        prog_defs mock_def start_def fresh_side_effect_def ok_def command_defs SA_NAME_def
        apis_def enumerate_simps Let_def strip_def isspace_def renders_dim_def)

section \<open>Secrets\<close>

text \<open>
  C4. \<open>setup_secrets\<close> issues at most two commands, in this order: it sets
  \<open>GCP_WORKLOAD_IDENTITY_PROVIDER\<close> to
  \<open>projects/{project_number}/locations/global/workloadIdentityPools/github-pool/providers/github-provider\<close>
  in either mode, then \<open>GCP_SERVICE_ACCOUNT\<close> to the fixed
  \<open>github-actions-rle@goog-rle-assessments.iam.gserviceaccount.com\<close> in mode \<open>shared\<close>,
  whatever the project id, and to the account \<open>github-actions\<close> of the project given
  in mode \<open>own\<close>. When it returns normally it has issued both.
\<close>

theorem setup_secrets_values:
  fixes E :: "'w env"
  defines "provider_cmd repo project_number \<equiv>
     \<lparr>args = [''gh'', ''secret'', ''set'', ''GCP_WORKLOAD_IDENTITY_PROVIDER'', ''--repo'', repo,
              ''--body'',
              ''projects/'' @ project_number
                @ ''/locations/global/workloadIdentityPools/github-pool/providers/github-provider''],
      capture_output = False, input = None\<rparr>"
  defines "account_cmd repo email \<equiv>
     \<lparr>args = [''gh'', ''secret'', ''set'', ''GCP_SERVICE_ACCOUNT'', ''--repo'', repo,
              ''--body'', email],
      capture_output = False, input = None\<rparr>"
  defines "expected gh_owner gh_repo_name gcp_project_id mode project_number \<equiv>
     [provider_cmd (gh_owner @ ''/'' @ gh_repo_name) project_number,
      account_cmd (gh_owner @ ''/'' @ gh_repo_name)
        (if mode = Shared
         then ''github-actions-rle@goog-rle-assessments.iam.gserviceaccount.com''
         else ''github-actions@'' @ gcp_project_id @ ''.iam.gserviceaccount.com'')]"
  shows "\<exists>cs. invocations (trace (snd (setup_secrets E gh_owner gh_repo_name gcp_project_id mode
                                        project_number step_offset tot s)))
               = invocations (trace s) @ cs \<and>
              prefix cs (expected gh_owner gh_repo_name gcp_project_id mode project_number) \<and>
              (fst (setup_secrets E gh_owner gh_repo_name gcp_project_id mode
                      project_number step_offset tot s) = Inr () \<longrightarrow>
               cs = expected gh_owner gh_repo_name gcp_project_id mode project_number)"
  unfolding provider_cmd_def account_cmd_def expected_def
  by (cases mode)
     (auto simp add: setup_secrets_def run_command_def prog_defs gh_secret_set_def SA_NAME_def
        SHARED_SA_NAME_def SHARED_GCP_PROJECT_def Let_def split: option.splits)

theorem setup_secrets_values_witness:
  "invocations (trace (snd (setup_secrets (mock (\<lambda>_. ok [])) ''owner'' ''repo'' ''proj-id'' Shared
                              ''123'' 0 2 start))) =
     [plain [''gh'', ''secret'', ''set'', ''GCP_WORKLOAD_IDENTITY_PROVIDER'', ''--repo'',
             ''owner/repo'', ''--body'',
             ''projects/123/locations/global/workloadIdentityPools/github-pool/providers/github-provider''],
      plain [''gh'', ''secret'', ''set'', ''GCP_SERVICE_ACCOUNT'', ''--repo'', ''owner/repo'',
             ''--body'', ''github-actions-rle@goog-rle-assessments.iam.gserviceaccount.com'']]"
proof -
  have returns: "fst (setup_secrets (mock (\<lambda>_. ok [])) ''owner'' ''repo'' ''proj-id'' Shared
                        ''123'' 0 2 start) = Inr ()"
    by (simp add: setup_secrets_def run_command_def prog_defs mock_def ok_def start_def Let_def)
  from setup_secrets_values
         [of "mock (\<lambda>_. ok [])" "''owner''" "''repo''" "''proj-id''" Shared "''123''" 0 2 start]
       returns
  show ?thesis by (auto simp add: start_def plain_def)
qed

section \<open>A first run in mode own\<close>

lemma setup_gcp_own_fresh_run:
  fixes E :: "'w env"
  assumes absent: "\<forall>w. returncode (fst (run E w (gcloud_describe_project_id pid))) \<noteq> 0 \<or>
                       (\<exists>out. stdout (fst (run E w (gcloud_describe_project_id pid))) = Some out \<and>
                              strip out \<noteq> pid)"
      and succeed: "\<forall>w c. c \<noteq> gcloud_describe_project_id pid \<longrightarrow> returncode (fst (run E w c)) = 0"
      and account: "\<forall>w. stdout (fst (run E w gcloud_auth_list)) = Some account"
      and number: "\<forall>w. stdout (fst (run E w (captured (gcloud_describe_project_number pid))))
                        = Some out"
      and printable: "renders_dim E (strip out)"
  shows "fst (setup_gcp_own E pid name gh_owner gh_repo_name step_offset tot s) = Inr (strip out) \<and>
         calls (trace (snd (setup_gcp_own E pid name gh_owner gh_repo_name step_offset tot s))) =
           calls (trace s) @
           [Exec (gcloud_describe_project_id pid),
            Exec (plain (gcloud_projects_create pid name)),
            Exec gcloud_auth_list,
            Exec (plain (gcloud_grant_owner pid (strip account))),
            Sleep 30,
            Exec (plain (gcloud_services_enable ''earthengine.googleapis.com'' pid)),
            Exec (plain (gcloud_services_enable ''iamcredentials.googleapis.com'' pid)),
            Exec (plain (gcloud_services_enable ''sts.googleapis.com'' pid)),
            Exec (plain (gcloud_services_enable ''cloudresourcemanager.googleapis.com'' pid)),
            Exec (captured (gcloud_create_pool pid)),
            Exec (captured (gcloud_create_provider pid)),
            Exec (captured (gcloud_create_service_account pid)),
            Exec (plain (gcloud_grant_role pid
                           (''github-actions@'' @ pid @ ''.iam.gserviceaccount.com'')
                           ''roles/earthengine.writer'')),
            Exec (plain (gcloud_grant_role pid
                           (''github-actions@'' @ pid @ ''.iam.gserviceaccount.com'')
                           ''roles/serviceusage.serviceUsageConsumer'')),
            Exec (captured (gcloud_describe_project_number pid)),
            Exec (plain (gcloud_bind_repository
                           (''github-actions@'' @ pid @ ''.iam.gserviceaccount.com'') pid
                           (''principalSet://iam.googleapis.com/projects/'' @ strip out
                              @ ''/locations/global/workloadIdentityPools/github-pool/attribute.repository/''
                              @ gh_owner @ ''/'' @ gh_repo_name)))]"
proof -
  have ok: "returncode (fst (run E w \<lparr>args = cmd, capture_output = cap, input = inp\<rparr>)) = 0"
    if "cmd \<noteq> args (gcloud_describe_project_id pid)" for w cmd cap inp
    using succeed that by (metis invocation.select_convs(1))
  note absent [rule_format, of "world s"]
  then show ?thesis
    apply (elim disjE exE conjE)
     apply (simp_all add: setup_gcp_own_def prog_defs run_command_done run_command_captured ok
        account number [unfolded captured_def] printable not_probe
        apis_def enumerate_simps SA_NAME_def wif_member_def plain_def captured_def Let_def)
    done
qed

text \<open>
  C5. In mode \<open>own\<close>, when the project is not found and every other command succeeds,
  \<open>_setup_gcp_own\<close> calls, in this order: the existence probe, create project, the lookup
  of the active account, grant owner, a sleep of 30 seconds, enable the four APIs, create
  pool, create provider, create service account, grant the two roles, describe the project
  number, bind the repository. It returns the numeric string that the describe call
  printed, as it is (the line end after it is stripped).
\<close>

theorem setup_gcp_own_fresh_project:
  fixes E :: "'w env"
  assumes absent: "\<forall>w. returncode (fst (run E w (gcloud_describe_project_id pid))) \<noteq> 0 \<or>
                       (\<exists>out. stdout (fst (run E w (gcloud_describe_project_id pid))) = Some out \<and>
                              strip out \<noteq> pid)"
      and succeed: "\<forall>w c. c \<noteq> gcloud_describe_project_id pid \<longrightarrow> returncode (fst (run E w c)) = 0"
      and account: "\<forall>w. stdout (fst (run E w gcloud_auth_list)) = Some account"
      and reported: "\<forall>w. stdout (fst (run E w (captured (gcloud_describe_project_number pid))))
                          = Some (number @ trailing)"
      and numeric: "number \<noteq> []" "set number \<subseteq> set ''0123456789''"
      and line_end: "\<forall>c \<in> set trailing. isspace c"
  shows "fst (setup_gcp_own E pid name gh_owner gh_repo_name step_offset tot s) = Inr number \<and>
         calls (trace (snd (setup_gcp_own E pid name gh_owner gh_repo_name step_offset tot s))) =
           calls (trace s) @
           [Exec (gcloud_describe_project_id pid),
            Exec (plain (gcloud_projects_create pid name)),
            Exec gcloud_auth_list,
            Exec (plain (gcloud_grant_owner pid (strip account))),
            Sleep 30,
            Exec (plain (gcloud_services_enable ''earthengine.googleapis.com'' pid)),
            Exec (plain (gcloud_services_enable ''iamcredentials.googleapis.com'' pid)),
            Exec (plain (gcloud_services_enable ''sts.googleapis.com'' pid)),
            Exec (plain (gcloud_services_enable ''cloudresourcemanager.googleapis.com'' pid)),
            Exec (captured (gcloud_create_pool pid)),
            Exec (captured (gcloud_create_provider pid)),
            Exec (captured (gcloud_create_service_account pid)),
            Exec (plain (gcloud_grant_role pid
                           (''github-actions@'' @ pid @ ''.iam.gserviceaccount.com'')
                           ''roles/earthengine.writer'')),
            Exec (plain (gcloud_grant_role pid
                           (''github-actions@'' @ pid @ ''.iam.gserviceaccount.com'')
                           ''roles/serviceusage.serviceUsageConsumer'')),
            Exec (captured (gcloud_describe_project_number pid)),
            Exec (plain (gcloud_bind_repository
                           (''github-actions@'' @ pid @ ''.iam.gserviceaccount.com'') pid
                           (''principalSet://iam.googleapis.com/projects/'' @ number
                              @ ''/locations/global/workloadIdentityPools/github-pool/attribute.repository/''
                              @ gh_owner @ ''/'' @ gh_repo_name)))]"
proof -
  have stripped: "strip (number @ trailing) = number"
    using numeric line_end by (rule strip_numeric)
  have "renders_dim E (strip (number @ trailing))"
    unfolding stripped using numeric(2) by (rule digits_render)
  from setup_gcp_own_fresh_run [OF absent succeed account reported this,
         of name gh_owner gh_repo_name step_offset tot s] stripped
  show ?thesis by simp
qed

theorem setup_gcp_own_fresh_project_witness:
  "fst (setup_gcp_own (mock fresh_side_effect) ''proj-id'' ''Proj Name'' ''owner'' ''repo'' 0 8 start)
     = Inr ''123456789''"
proof -
  let ?E = "mock fresh_side_effect"
  have absent: "\<forall>w. returncode (fst (run ?E w (gcloud_describe_project_id ''proj-id''))) \<noteq> 0 \<or>
                  (\<exists>out. stdout (fst (run ?E w (gcloud_describe_project_id ''proj-id''))) = Some out \<and>
                         strip out \<noteq> ''proj-id'')"
    by (simp add: mock_def fresh_side_effect_def ok_def command_defs strip_def isspace_def)
  have succeed: "\<forall>w c. c \<noteq> gcloud_describe_project_id ''proj-id'' \<longrightarrow>
                    returncode (fst (run ?E w c)) = 0"
    by (simp add: mock_def)
  have account: "\<forall>w. stdout (fst (run ?E w gcloud_auth_list)) = Some ''user@example.com''"
    by (simp add: mock_def fresh_side_effect_def ok_def command_defs)
  have reported: "\<forall>w. stdout (fst (run ?E w (captured (gcloud_describe_project_number ''proj-id''))))
                    = Some (''123456789'' @ [CHR 0x0A])"
    by (simp add: mock_def fresh_side_effect_def ok_def command_defs captured_def)
  have numeric: "''123456789'' \<noteq> []" "set ''123456789'' \<subseteq> set ''0123456789''"
    by simp_all
  have line_end: "\<forall>c \<in> set [CHR 0x0A]. isspace c"
    by (simp add: isspace_def)
  from setup_gcp_own_fresh_project [OF absent succeed account reported numeric line_end]
  show ?thesis by simp
qed

section \<open>A second run\<close>

text \<open>
  C6. A second run of the \<open>all\<close> command in mode \<open>own\<close>, on a target where the
  repository and the project are found, the pool, the provider and the service account
  are refused as already existing and the project number printed can be shown on the
  console, creates nothing twice: no \<open>gh repo create\<close> and no
  \<open>gcloud projects create\<close> is issued, the three refused creations are reported as
  skipped, and the run goes through all its remaining commands, sets the two secrets and
  returns normally.
\<close>

theorem rerun_creates_nothing:
  fixes E :: "'w env"
  assumes tools: "which E ''gh''" "which E ''gcloud''"
      and present: "\<forall>w. \<forall>c \<in> set (reactive_creates pid).
                      returncode (fst (run E w c)) \<noteq> 0 \<and>
                      (\<exists>e. stderr (fst (run E w c)) = Some e \<and> is_already_exists_error e)"
      and succeed: "\<forall>w c. c \<notin> set (reactive_creates pid) \<longrightarrow> returncode (fst (run E w c)) = 0"
      and project: "\<forall>w. \<exists>out. stdout (fst (run E w (gcloud_describe_project_id pid))) = Some out \<and>
                              strip out = pid"
      and account: "\<forall>w. stdout (fst (run E w gcloud_auth_list)) = Some account"
                   "strip account \<noteq> []"
      and number: "\<forall>w. stdout (fst (run E w (captured (gcloud_describe_project_number pid))))
                        = Some number"
      and printable: "renders_dim E (strip number)"
  shows "fst (cmd_all E country pid name gh_owner gh_repo_name Own s) = Inr () \<and>
         skip_notices (trace (snd (cmd_all E country pid name gh_owner gh_repo_name Own s))) =
           skip_notices (trace s) @
           [Repo_already_exists (gh_owner @ ''/'' @ gh_repo_name), Project_already_exists pid,
            Already_exists_skipping, Already_exists_skipping, Already_exists_skipping] \<and>
         calls (trace (snd (cmd_all E country pid name gh_owner gh_repo_name Own s))) =
           calls (trace s) @
           [Exec gh_auth_status,
            Exec gcloud_auth_list,
            Exec (gh_repo_view (gh_owner @ ''/'' @ gh_repo_name)),
            Exec \<lparr>args = gh_pages_environment gh_owner gh_repo_name, capture_output = False,
                  input = Some github_pages_policy\<rparr>,
            Exec (plain (gh_deployment_branch gh_owner gh_repo_name)),
            Exec (gcloud_describe_project_id pid),
            Exec (gcloud_config_set_project pid),
            Exec gcloud_auth_list,
            Exec (plain (gcloud_grant_owner pid (strip account))),
            Sleep 30,
            Exec (plain (gcloud_services_enable ''earthengine.googleapis.com'' pid)),
            Exec (plain (gcloud_services_enable ''iamcredentials.googleapis.com'' pid)),
            Exec (plain (gcloud_services_enable ''sts.googleapis.com'' pid)),
            Exec (plain (gcloud_services_enable ''cloudresourcemanager.googleapis.com'' pid)),
            Exec (captured (gcloud_create_pool pid)),
            Exec (captured (gcloud_create_provider pid)),
            Exec (captured (gcloud_create_service_account pid)),
            Exec (plain (gcloud_grant_role pid
                           (''github-actions@'' @ pid @ ''.iam.gserviceaccount.com'')
                           ''roles/earthengine.writer'')),
            Exec (plain (gcloud_grant_role pid
                           (''github-actions@'' @ pid @ ''.iam.gserviceaccount.com'')
                           ''roles/serviceusage.serviceUsageConsumer'')),
            Exec (captured (gcloud_describe_project_number pid)),
            Exec (plain (gcloud_bind_repository
                           (''github-actions@'' @ pid @ ''.iam.gserviceaccount.com'') pid
                           (''principalSet://iam.googleapis.com/projects/'' @ strip number
                              @ ''/locations/global/workloadIdentityPools/github-pool/attribute.repository/''
                              @ gh_owner @ ''/'' @ gh_repo_name))),
            Exec (plain (gh_secret_set ''GCP_WORKLOAD_IDENTITY_PROVIDER''
                           (gh_owner @ ''/'' @ gh_repo_name)
                           (''projects/'' @ strip number
                              @ ''/locations/global/workloadIdentityPools/github-pool/providers/github-provider''))),
            Exec (plain (gh_secret_set ''GCP_SERVICE_ACCOUNT'' (gh_owner @ ''/'' @ gh_repo_name)
                           (''github-actions@'' @ pid @ ''.iam.gserviceaccount.com'')))]"
proof -
  have ok: "returncode (fst (run E w c)) = 0" if "c \<notin> set (reactive_creates pid)" for w c
    using succeed that by blast
  have pool: "\<lparr>args = gcloud_create_pool pid, capture_output = True, input = None\<rparr>
                \<in> set (reactive_creates pid)"
    and provider: "\<lparr>args = gcloud_create_provider pid, capture_output = True, input = None\<rparr>
                \<in> set (reactive_creates pid)"
    and sa: "\<lparr>args = gcloud_create_service_account pid, capture_output = True, input = None\<rparr>
                \<in> set (reactive_creates pid)"
    by (simp_all add: reactive_creates_def captured_def)
  have skipped: "run_command E c step tot title False None True s' =
           (Inr (fst (run E (world s') \<lparr>args = c, capture_output = True, input = None\<rparr>)),
            \<lparr>world = snd (run E (world s') \<lparr>args = c, capture_output = True, input = None\<rparr>),
             trace = trace s' @ [Header step tot title,
                                Exec \<lparr>args = c, capture_output = True, input = None\<rparr>,
                                Print Already_exists_skipping]\<rparr>)"
    if "\<lparr>args = c, capture_output = True, input = None\<rparr> \<in> set (reactive_creates pid)"
    for c step tot title and s' :: "'w run_state"
  proof -
    from present that obtain e where
      "returncode (fst (run E (world s') \<lparr>args = c, capture_output = True, input = None\<rparr>)) \<noteq> 0"
      "stderr (fst (run E (world s') \<lparr>args = c, capture_output = True, input = None\<rparr>)) = Some e"
      "is_already_exists_error e"
      by blast
    then show ?thesis by (rule run_command_skipped)
  qed
  have strip_id: "stdout_strip (fst (run E w (gcloud_describe_project_id pid))) = return pid" for w
    using project [rule_format, of w] by (auto simp add: stdout_strip_def)
  have strip_account: "stdout_strip (fst (run E w gcloud_auth_list)) = return (strip account)" for w
    using account by (simp add: stdout_strip_def)
  have strip_number:
    "stdout_strip (fst (run E w \<lparr>args = gcloud_describe_project_number pid, capture_output = True,
                                  input = None\<rparr>)) = return (strip number)" for w
    using number by (simp add: stdout_strip_def captured_def)
  show ?thesis
    by (simp add: cmd_all_def check_prerequisites_def setup_github_def setup_gcp_def
        setup_gcp_own_def setup_secrets_def return_def raise_def then_do_def emit_def
        console_print_def time_sleep_def subprocess_run_def step_header_def discard_def
        tools run_command_done run_command_captured ok account
        number [unfolded captured_def] printable not_reactive skipped pool provider sa
        strip_id [unfolded return_def] strip_account [unfolded return_def]
        strip_number [unfolded return_def]
        apis_def enumerate_simps SA_NAME_def wif_member_def plain_def captured_def Let_def)
qed

theorem rerun_creates_nothing_witness:
  "fst (cmd_all (mock rerun_side_effect) ''Ruritania'' ''proj-id'' ''Proj Name'' ''owner'' ''repo''
          Own start) = Inr () \<and>
   skip_notices (trace (snd (cmd_all (mock rerun_side_effect) ''Ruritania'' ''proj-id''
                               ''Proj Name'' ''owner'' ''repo'' Own start))) =
     [Repo_already_exists ''owner/repo'', Project_already_exists ''proj-id'',
      Already_exists_skipping, Already_exists_skipping, Already_exists_skipping]"
proof -
  let ?E = "mock rerun_side_effect"
  have tools: "which ?E ''gh''" "which ?E ''gcloud''"
    by (simp_all add: mock_def)
  have present: "\<forall>w. \<forall>c \<in> set (reactive_creates ''proj-id'').
                      returncode (fst (run ?E w c)) \<noteq> 0 \<and>
                      (\<exists>e. stderr (fst (run ?E w c)) = Some e \<and> is_already_exists_error e)"
    by (simp add: mock_def rerun_side_effect_def fail_def is_already_exists_error_def)
  have succeed: "\<forall>w c. c \<notin> set (reactive_creates ''proj-id'') \<longrightarrow>
                    returncode (fst (run ?E w c)) = 0"
    by (simp add: mock_def rerun_side_effect_def ok_def)
  have project: "\<forall>w. \<exists>out. stdout (fst (run ?E w (gcloud_describe_project_id ''proj-id'')))
                              = Some out \<and> strip out = ''proj-id''"
    by (simp add: mock_def rerun_side_effect_def not_reactive ok_def strip_def isspace_def)
  have account: "\<forall>w. stdout (fst (run ?E w gcloud_auth_list)) = Some ''user@example.com''"
    "strip ''user@example.com'' \<noteq> []"
    by (simp_all add: mock_def rerun_side_effect_def fresh_side_effect_def ok_def
          command_defs reactive_creates_def captured_def strip_def isspace_def)
  have number: "\<forall>w. stdout (fst (run ?E w (captured (gcloud_describe_project_number ''proj-id''))))
                    = Some (''123456789'' @ [CHR 0x0A])"
    by (simp add: mock_def rerun_side_effect_def fresh_side_effect_def ok_def command_defs
          captured_def reactive_creates_def)
  have printable: "renders_dim ?E (strip (''123456789'' @ [CHR 0x0A]))"
    by (simp add: renders_dim_def strip_def isspace_def)
  from rerun_creates_nothing [OF tools present succeed project account number printable,
         of "''Ruritania''" "''Proj Name''" "''owner''" "''repo''" start]
  show ?thesis by (simp add: start_def)
qed

section \<open>A failed step ends the run\<close>

lemma world_after_append [simp]:
  "world_after E w (xs @ ys) = world_after E (world_after E w xs) ys"
  by (induction E w xs rule: world_after.induct) simp_all

lemma skip_notice_next_append: "skip_notice_next xs \<Longrightarrow> skip_notice_next (xs @ ys)"
  by (cases xs) simp_all

lemma closed_segment_Cons: "closed_segment (e # es) \<Longrightarrow> es \<noteq> [] \<Longrightarrow> closed_segment es"
  by (simp add: closed_segment_def)

lemma closed_segment_append:
  "closed_segment xs \<Longrightarrow> closed_segment ys \<Longrightarrow> closed_segment (xs @ ys)"
  by (cases "ys = []") (simp_all add: closed_segment_def)

text \<open>A stretch of steps that all succeeded or were skipped can be followed by any trace
  that is in order.\<close>

lemma track_append:
  assumes "track True E w p xs" and "closed_segment xs" and "xs = [] \<longrightarrow> \<not> p"
      and "track b E (world_after E w xs) False ys"
  shows "track b E w p (xs @ ys)"
  using assms
proof (induction xs arbitrary: w p)
  case Nil
  then show ?case by simp
next
  case (Cons e es)
  have rest: "track b E w' p' (es @ ys)"
    if "track True E w' p' es" and "world_after E w' es = world_after E w (e # es)"
      and "es = [] \<longrightarrow> \<not> p'" for w' p'
  proof (cases "es = []")
    case True
    with that Cons.prems(4) show ?thesis by simp
  next
    case False
    with Cons.prems(2) have "closed_segment es"
      by (rule closed_segment_Cons)
    with that Cons.prems(4) show ?thesis
      by (intro Cons.IH) simp_all
  qed
  show ?case
  proof (cases e)
    case (Header step tot title)
    with Cons.prems(2) have "es \<noteq> []"
      by (auto simp add: closed_segment_def)
    with Header Cons.prems(1) have "track b E w True (es @ ys)"
      by (intro rest) simp_all
    with Header show ?thesis by simp
  next
    case (Exec c)
    show ?thesis
    proof (cases "p \<and> returncode (fst (run E w c)) \<noteq> 0")
      case True
      with Exec Cons.prems(1) have skip: "skip_notice_next es"
        and marked: "capture_output c"
          "is_already_exists_error (error_text (fst (run E w c)))"
        and tail: "track True E (snd (run E w c)) False es"
        by (simp_all split: if_splits)
      from skip have "skip_notice_next (es @ ys)"
        by (rule skip_notice_next_append)
      moreover from tail Exec have "track b E (snd (run E w c)) False (es @ ys)"
        by (intro rest) simp_all
      ultimately show ?thesis
        using True Exec marked by simp
    next
      case False
      with Exec Cons.prems(1) have "track True E (snd (run E w c)) False es"
        by auto
      with Exec have "track b E (snd (run E w c)) False (es @ ys)"
        by (intro rest) simp_all
      with False Exec show ?thesis by auto
    qed
  next
    case (Print m)
    with Cons.prems(1) have "track b E w False (es @ ys)"
      by (intro rest) simp_all
    with Print show ?thesis by simp
  next
    case (Sleep n)
    with Cons.prems(1) have "track b E w False (es @ ys)"
      by (intro rest) simp_all
    with Sleep show ?thesis by simp
  next
    case (Ee call)
    with Cons.prems(1) have "track b E w False (es @ ys)"
      by (intro rest) simp_all
    with Ee show ?thesis by simp
  qed
qed

lemma track_tail:
  "track b E w p (e # es) \<Longrightarrow>
     (\<exists>p'. track b E (world_after E w [e]) p' es) \<or> (\<forall>x \<in> set es. \<not> executes x)"
  by (cases e) (auto split: if_splits)

text \<open>What a trace in order says of a step whose command exited non-zero.\<close>

lemma track_failed_step:
  assumes "track b E w p tr"
      and "i + 1 < length tr" and "tr ! i = Header n tot title" and "tr ! (i + 1) = Exec c"
      and "returncode (fst (run E (world_after E w (take (i + 1) tr)) c)) \<noteq> 0"
  shows "(skip_notice_next (drop (i + 2) tr) \<longrightarrow>
            capture_output c \<and>
            is_already_exists_error
              (error_text (fst (run E (world_after E w (take (i + 1) tr)) c)))) \<and>
         (\<not> skip_notice_next (drop (i + 2) tr) \<longrightarrow>
            \<not> b \<and> (\<forall>e \<in> set (drop (i + 2) tr). \<not> executes e))"
  using assms
proof (induction tr arbitrary: i w p)
  case Nil
  then show ?case by simp
next
  case (Cons e es)
  show ?case
  proof (cases i)
    case 0
    with Cons.prems(2,4) obtain rest where es: "es = Exec c # rest"
      by (cases es) auto
    from 0 Cons.prems(3) have e: "e = Header n tot title" by simp
    from Cons.prems(1,5) show ?thesis
      unfolding 0 e es by (auto split: if_splits)
  next
    case (Suc k)
    from Suc Cons.prems(2) have "k < length es" by simp
    then have "es ! k \<in> set es" by (rule nth_mem)
    moreover from Suc Cons.prems(3) have "executes (es ! k)" by simp
    ultimately have "\<not> (\<forall>x \<in> set es. \<not> executes x)" by blast
    with track_tail [OF Cons.prems(1)] obtain p' where
      tail: "track b E (world_after E w [e]) p' es"
      by blast
    have world: "world_after E w (take (Suc k + 1) (e # es)) =
                 world_after E (world_after E w [e]) (take (k + 1) es)"
      using world_after_append [of E w "[e]" "take (k + 1) es"] by simp
    from Cons.IH [OF tail, of k] Cons.prems(2-5) Suc world
    show ?thesis by simp
  qed
qed

lemma tracked_return [simp]: "tracked E (return x)"
  by (simp add: tracked_def return_def closed_segment_def)

lemma tracked_raise:
  "process_exit_code (Inl e :: error + unit) = 1 \<Longrightarrow> tracked E (raise e)"
  by (simp add: tracked_def raise_def closed_segment_def)

lemma tracked_console_print [simp]: "tracked E (console_print m)"
  by (simp add: tracked_def console_print_def emit_def closed_segment_def)

lemma tracked_print_markup [simp]: "tracked E (print_markup accepted m)"
  by (simp add: tracked_def print_markup_def console_print_def emit_def raise_def
        closed_segment_def)

lemma tracked_time_sleep [simp]: "tracked E (time_sleep n)"
  by (simp add: tracked_def time_sleep_def emit_def closed_segment_def)

lemma tracked_subprocess_run [simp]: "tracked E (subprocess_run E c)"
  by (simp add: tracked_def subprocess_run_def closed_segment_def)

lemma tracked_stdout_strip [simp]: "tracked E (stdout_strip r)"
  by (simp add: stdout_strip_def tracked_raise split: option.splits)

text \<open>A step header is followed at once by the notice that nothing is created, or by the
  command of \<open>run_command\<close>.\<close>

lemma tracked_announce [simp]:
  "tracked E (then_do (step_header step tot title) (\<lambda>_. console_print m))"
  by (simp add: tracked_def prog_defs closed_segment_def)

lemma tracked_announce_run [simp]:
  "tracked E (then_do (step_header step tot title) (\<lambda>_.
              then_do (console_print m) (\<lambda>_. discard (subprocess_run E c))))"
  by (simp add: tracked_def prog_defs closed_segment_def)

lemma tracked_run_command [simp]:
  "tracked E (run_command E cmd step tot title capture input_data skip_if_exists)"
  unfolding tracked_def
  by (auto simp add: run_command_def prog_defs closed_segment_def error_text_def
        split: option.splits)

text \<open>Sequencing keeps the property: what follows a part runs only if that part returned,
  hence after steps that succeeded or were skipped.\<close>

lemma tracked_then_do:
  assumes m: "tracked E m" and f: "\<And>x. tracked E (f x)"
  shows "tracked E (then_do m f)"
  unfolding tracked_def
proof
  fix s
  from m obtain tr1 where tr1: "trace (snd (m s)) = trace s @ tr1"
    and w1: "world (snd (m s)) = world_after E (world s) tr1"
    and c1: "closed_segment tr1"
    and r1: "case fst (m s) of Inr _ \<Rightarrow> track True E (world s) False tr1
             | Inl e \<Rightarrow> track False E (world s) False tr1 \<and>
                        process_exit_code (Inl e :: error + unit) = 1"
    unfolding tracked_def by blast
  show "\<exists>tr. trace (snd (then_do m f s)) = trace s @ tr \<and>
             world (snd (then_do m f s)) = world_after E (world s) tr \<and>
             closed_segment tr \<and>
             (case fst (then_do m f s) of Inr _ \<Rightarrow> track True E (world s) False tr
              | Inl e \<Rightarrow> track False E (world s) False tr \<and>
                         process_exit_code (Inl e :: error + unit) = 1)"
  proof (cases "fst (m s)")
    case (Inl e)
    then have "then_do m f s = (Inl e, snd (m s))"
      by (simp add: then_do_cases)
    with tr1 w1 c1 r1 Inl show ?thesis by simp
  next
    case (Inr x)
    then have eq: "then_do m f s = f x (snd (m s))"
      by (simp add: then_do_cases)
    from f [of x] obtain tr2 where tr2: "trace (snd (f x (snd (m s)))) = trace (snd (m s)) @ tr2"
      and w2: "world (snd (f x (snd (m s)))) = world_after E (world (snd (m s))) tr2"
      and c2: "closed_segment tr2"
      and r2: "case fst (f x (snd (m s))) of
                 Inr _ \<Rightarrow> track True E (world (snd (m s))) False tr2
               | Inl e \<Rightarrow> track False E (world (snd (m s))) False tr2 \<and>
                          process_exit_code (Inl e :: error + unit) = 1"
      unfolding tracked_def by blast
    from Inr r1 have good: "track True E (world s) False tr1" by simp
    have join: "track b E (world s) False (tr1 @ tr2)"
      if "track b E (world (snd (m s))) False tr2" for b
      using good c1 that unfolding w1 by (intro track_append) simp_all
    have "trace (snd (then_do m f s)) = trace s @ (tr1 @ tr2)"
      using eq tr1 tr2 by simp
    moreover have "world (snd (then_do m f s)) = world_after E (world s) (tr1 @ tr2)"
      using eq w1 w2 by simp
    moreover have "closed_segment (tr1 @ tr2)"
      using c1 c2 by (rule closed_segment_append)
    moreover have "case fst (then_do m f s) of
                     Inr _ \<Rightarrow> track True E (world s) False (tr1 @ tr2)
                   | Inl e \<Rightarrow> track False E (world s) False (tr1 @ tr2) \<and>
                              process_exit_code (Inl e :: error + unit) = 1"
      using eq r2 join by (auto split: sum.splits)
    ultimately show ?thesis by blast
  qed
qed

lemma tracked_discard: "tracked E m \<Longrightarrow> tracked E (discard m)"
  unfolding discard_def by (intro tracked_then_do tracked_return)

lemma tracked_if:
  "(c \<Longrightarrow> tracked E a) \<Longrightarrow> (\<not> c \<Longrightarrow> tracked E b) \<Longrightarrow> tracked E (if c then a else b)"
  by simp

lemma tracked_for_each: "(\<And>x. tracked E (body x)) \<Longrightarrow> tracked E (for_each xs body)"
  by (induction xs) (auto intro!: tracked_then_do)

lemma tracked_case_prod: "(\<And>a b. tracked E (f a b)) \<Longrightarrow> tracked E (case_prod f p)"
  by (cases p) simp

lemma exit_1: "process_exit_code (Inl (Exit 1) :: error + unit) = 1"
  by simp

lemmas tracked_intros = tracked_announce tracked_announce_run tracked_run_command
  tracked_then_do tracked_if tracked_for_each tracked_case_prod tracked_discard
  tracked_raise exit_1

lemma tracked_check_prerequisites [simp]:
  "tracked E (check_prerequisites E need_gh need_gcloud)"
  unfolding check_prerequisites_def by (intro tracked_intros) simp_all

lemma tracked_setup_github [simp]:
  "tracked E (setup_github E gh_owner gh_repo_name country_name step_offset tot)"
  unfolding setup_github_def Let_def by (intro tracked_intros) simp_all

lemma tracked_setup_gcp_own [simp]:
  "tracked E (setup_gcp_own E pid name gh_owner gh_repo_name step_offset tot)"
  unfolding setup_gcp_own_def Let_def by (intro tracked_intros) simp_all

lemma tracked_setup_gcp_shared [simp]:
  "tracked E (setup_gcp_shared E gh_owner gh_repo_name step_offset tot)"
  unfolding setup_gcp_shared_def Let_def by (intro tracked_intros) simp_all

lemma tracked_setup_gcp [simp]:
  "tracked E (setup_gcp E pid name gh_owner gh_repo_name mode step_offset tot)"
  unfolding setup_gcp_def Let_def by (intro tracked_intros) simp_all

lemma tracked_setup_secrets [simp]:
  "tracked E (setup_secrets E gh_owner gh_repo_name pid mode project_number step_offset tot)"
  unfolding setup_secrets_def Let_def
  by (cases mode) (auto intro!: tracked_then_do tracked_discard)

lemma tracked_app: "tracked E (app E c)"
proof (cases c)
  case (Cmd_all country pid name gh_owner gh_repo_name mode)
  then show ?thesis
    unfolding Cmd_all app.simps cmd_all_def Let_def by (intro tracked_intros; simp)
next
  case (Cmd_github country gh_owner gh_repo_name)
  then show ?thesis
    unfolding Cmd_github app.simps github_def by (intro tracked_intros; simp)
next
  case (Cmd_gcp pid name gh_owner gh_repo_name mode)
  then show ?thesis
    unfolding Cmd_gcp app.simps gcp_def by (intro tracked_intros; simp)
next
  case (Cmd_secrets gh_owner gh_repo_name pid mode project_number)
  then show ?thesis
    unfolding Cmd_secrets app.simps secrets_def by (intro tracked_intros; simp)
qed



section \<open>The demo asset\<close>

lemmas ee_defs = upload_demo_asset_def main_def then_may_def lift_def polling_def ee_getAsset_def
  ee_createAsset_def ee_task_start_def ee_task_status_def return_def raise_def emit_def
  console_print_def Let_def

text \<open>The polling loop ends at the first answer that the task is no longer active, after
  one sleep of 2 seconds per earlier answer; it never ends if there is no such answer.\<close>

lemma poll_returns:
  assumes "\<forall>i < n. fst (task_active E (after_polls E i (world s)))"
      and "\<not> fst (task_active E (after_polls E n (world s)))"
  shows "poll E s = Some \<lparr>world = snd (task_active E (after_polls E n (world s))),
                          trace = trace s @ concat (replicate n [Ee TaskActive, Sleep 2])
                                    @ [Ee TaskActive]\<rparr>"
  using assms
proof (induction n arbitrary: s)
  case 0
  then show ?case by (subst poll.simps) simp
next
  case (Suc n)
  let ?s = "\<lparr>world = snd (task_active E (world s)), trace = trace s @ [Ee TaskActive, Sleep 2]\<rparr>"
  from Suc.prems(1) have active: "fst (task_active E (world s))"
    by (metis after_polls.simps(1) zero_less_Suc)
  have "\<forall>i < n. fst (task_active E (after_polls E i (world ?s)))"
    using Suc.prems(1) by (metis Suc_less_eq after_polls.simps(2) run_state.select_convs(1))
  moreover have "\<not> fst (task_active E (after_polls E n (world ?s)))"
    using Suc.prems(2) by simp
  ultimately have "poll E ?s = Some \<lparr>world = snd (task_active E (after_polls E n (world ?s))),
                          trace = trace ?s @ concat (replicate n [Ee TaskActive, Sleep 2])
                                    @ [Ee TaskActive]\<rparr>"
    by (rule Suc.IH)
  with active show ?case by (subst poll.simps) simp
qed

lemma poll_Some_inactive:
  assumes "poll E s = Some s'"
  shows "\<exists>n. \<not> fst (task_active E (after_polls E n (world s)))"
proof (rule poll.raw_induct
         [where P = "\<lambda>E s s'. \<exists>n. \<not> fst (task_active E (after_polls E n (world s)))", OF _ assms])
  fix p :: "'a ee_env \<Rightarrow> 'a run_state \<Rightarrow> 'a run_state option" and E s s'
  assume IH: "\<And>E s y. p E s = Some y \<Longrightarrow>
                \<exists>n. \<not> fst (task_active E (after_polls E n (world s)))"
    and step: "(if fst (task_active E (world s))
                then p E \<lparr>world = snd (task_active E (world s)),
                          trace = trace s @ [Ee TaskActive, Sleep 2]\<rparr>
                else Some \<lparr>world = snd (task_active E (world s)),
                           trace = trace s @ [Ee TaskActive]\<rparr>) = Some s'"
  show "\<exists>n. \<not> fst (task_active E (after_polls E n (world s)))"
  proof (cases "fst (task_active E (world s))")
    case True
    with step IH obtain n where
      "\<not> fst (task_active E (after_polls E n (snd (task_active E (world s)))))"
      by fastforce
    then have "\<not> fst (task_active E (after_polls E (Suc n) (world s)))" by simp
    then show ?thesis by blast
  next
    case False
    then have "\<not> fst (task_active E (after_polls E 0 (world s)))" by simp
    then show ?thesis by blast
  qed
qed

lemma poll_never_returns:
  "\<forall>n. fst (task_active E (after_polls E n (world s))) \<Longrightarrow> poll E s = None"
  using poll_Some_inactive [of E s] by (cases "poll E s") auto

lemma upload_existing:
  assumes "fst (getAsset E (world s) (demo_asset_id project))"
  shows "upload_demo_asset E project s =
           Some (Inr (),
                 \<lparr>world = snd (getAsset E (world s) (demo_asset_id project)),
                  trace = trace s @
                    [Ee (Auth_default [''https://www.googleapis.com/auth/earthengine'']),
                     Ee (Initialize project),
                     Ee (GetAsset (demo_asset_id project)),
                     Print (Asset_already_exists (demo_asset_id project))]\<rparr>)"
  using assms by (simp add: ee_defs)

lemma upload_absent:
  fixes E :: "'w ee_env"
  assumes absent: "\<not> fst (getAsset E (world s) (demo_asset_id project))"
  shows "(\<forall>n. (\<forall>i < n. fst (task_active E (after_polls E i (started E project (world s))))) \<and>
              \<not> fst (task_active E (after_polls E n (started E project (world s)))) \<longrightarrow>
              (\<exists>r s'. upload_demo_asset E project s = Some (r, s') \<and>
                 calls (trace s') = calls (trace s) @
                   [Ee (Auth_default [''https://www.googleapis.com/auth/earthengine'']),
                    Ee (Initialize project),
                    Ee (GetAsset (demo_asset_id project)),
                    Ee (CreateAsset ''FOLDER'' (demo_folder_id project)),
                    Ee (ExportTableToAsset (demo_task (demo_asset_id project))),
                    Ee TaskStart]
                   @ concat (replicate n [Ee TaskActive, Sleep 2])
                   @ [Ee TaskActive, Ee TaskStatus])) \<and>
         ((\<forall>n. fst (task_active E (after_polls E n (started E project (world s))))) \<longrightarrow>
            upload_demo_asset E project s = None)"
proof (intro conjI allI impI)
  let ?id = "demo_asset_id project"
  let ?s6 = "\<lparr>world = started E project (world s),
              trace = trace s @
                [Ee (Auth_default [''https://www.googleapis.com/auth/earthengine'']),
                 Ee (Initialize project),
                 Ee (GetAsset ?id),
                 Ee (CreateAsset ''FOLDER'' (demo_folder_id project)),
                 Ee (ExportTableToAsset (demo_task ?id)),
                 Ee TaskStart, Print Uploading_demo_asset]\<rparr>"
  have unfold: "upload_demo_asset E project s =
      then_may (polling E) (\<lambda>_.
           then_may (lift (ee_task_status E)) (\<lambda>status.
             case status ''state'' of
               None \<Rightarrow> lift (raise KeyError)
             | Some state \<Rightarrow>
                 if state = ''COMPLETED'' then lift (console_print (Upload_done ?id))
                 else lift (console_print (Upload_failed
                        (case status ''error_message'' of
                           None \<Rightarrow> ''unknown error'' | Some m \<Rightarrow> m))))) ?s6"
    using absent
    by (simp add: upload_demo_asset_def then_may_def lift_def ee_getAsset_def ee_createAsset_def
          ee_task_start_def emit_def console_print_def Let_def started_def)
  {
    fix n
    assume "(\<forall>i < n. fst (task_active E (after_polls E i (started E project (world s))))) \<and>
              \<not> fst (task_active E (after_polls E n (started E project (world s))))"
    then have "poll E ?s6 = Some \<lparr>world = snd (task_active E (after_polls E n (world ?s6))),
                          trace = trace ?s6 @ concat (replicate n [Ee TaskActive, Sleep 2])
                                    @ [Ee TaskActive]\<rparr>"
      by (intro poll_returns) simp_all
    then show "\<exists>r s'. upload_demo_asset E project s = Some (r, s') \<and>
                 calls (trace s') = calls (trace s) @
                   [Ee (Auth_default [''https://www.googleapis.com/auth/earthengine'']),
                    Ee (Initialize project),
                    Ee (GetAsset ?id),
                    Ee (CreateAsset ''FOLDER'' (demo_folder_id project)),
                    Ee (ExportTableToAsset (demo_task ?id)),
                    Ee TaskStart]
                   @ concat (replicate n [Ee TaskActive, Sleep 2])
                   @ [Ee TaskActive, Ee TaskStatus]"
      unfolding unfold
      by (auto simp add: then_may_def lift_def polling_def ee_task_status_def raise_def
            console_print_def emit_def split: option.splits)
  }
  {
    assume "\<forall>n. fst (task_active E (after_polls E n (started E project (world s))))"
    then have "poll E ?s6 = None"
      by (intro poll_never_returns) simp
    then show "upload_demo_asset E project s = None"
      unfolding unfold by (simp add: then_may_def polling_def)
  }
qed

text \<open>
  C10. When the first lookup of the asset succeeds, \<open>upload_demo_asset\<close> returns at once:
  after the authentication, the initialisation and the lookup it only prints that the
  asset exists. It creates no folder, builds no export and starts no task.
\<close>

theorem upload_skips_existing_asset:
  assumes "fst (getAsset E (world s) (''projects/'' @ project @ ''/assets/demo/null_island_ecosystems''))"
  shows "upload_demo_asset E project s =
           Some (Inr (),
                 \<lparr>world = snd (getAsset E (world s)
                                 (''projects/'' @ project @ ''/assets/demo/null_island_ecosystems'')),
                  trace = trace s @
                    [Ee (Auth_default [''https://www.googleapis.com/auth/earthengine'']),
                     Ee (Initialize project),
                     Ee (GetAsset (''projects/'' @ project @ ''/assets/demo/null_island_ecosystems'')),
                     Print (Asset_already_exists
                              (''projects/'' @ project @ ''/assets/demo/null_island_ecosystems''))]\<rparr>)"
  using assms upload_existing [of E s project] by (simp add: demo_asset_id_def)

theorem upload_skips_existing_asset_witness:
  "upload_demo_asset (ee_fake True ''COMPLETED'') ''demo'' \<lparr>world = 2, trace = []\<rparr> =
     Some (Inr (),
           \<lparr>world = 2,
            trace = [Ee (Auth_default [''https://www.googleapis.com/auth/earthengine'']),
                     Ee (Initialize ''demo''),
                     Ee (GetAsset ''projects/demo/assets/demo/null_island_ecosystems''),
                     Print (Asset_already_exists
                              ''projects/demo/assets/demo/null_island_ecosystems'')]\<rparr>)"
  using upload_skips_existing_asset
          [of "ee_fake True ''COMPLETED''" "\<lparr>world = 2, trace = []\<rparr>" "''demo''"]
  by (simp add: ee_fake_def)

text \<open>
  C8, as the claim states it, fails on a project whose demo asset exists: the script is
  given a project and uploads nothing.
\<close>

theorem main_uploads_counterexample:
  "main (ee_fake True ''COMPLETED'') (Some ''demo'') None \<lparr>world = 2, trace = []\<rparr> =
     Some (Inr (),
           \<lparr>world = 2,
            trace = [Ee (Auth_default [''https://www.googleapis.com/auth/earthengine'']),
                     Ee (Initialize ''demo''),
                     Ee (GetAsset ''projects/demo/assets/demo/null_island_ecosystems''),
                     Print (Asset_already_exists
                              ''projects/demo/assets/demo/null_island_ecosystems'')]\<rparr>)"
  by (simp add: main_def upload_existing ee_fake_def demo_asset_id_def)

text \<open>
  C8, amended. The script takes the value of \<open>--project\<close> and, when the option is absent,
  that of \<open>GOOGLE_CLOUD_PROJECT\<close>. With no value, or an empty one, it stops with a parser
  error (status 2) before any call to Earth Engine. With a project whose demo asset exists
  it returns without uploading. Otherwise it exports the collection of the two features
  \<open>land\<close> and \<open>water\<close> to \<open>projects/{project}/assets/demo/null_island_ecosystems\<close>,
  starts the task and asks \<open>task.active()\<close>, sleeping 2 seconds after each answer that
  the task is active, until the first answer that it is not; then it reads the status and
  returns. If the task never leaves the active state the script never returns.
\<close>

theorem main_uploads_demo_asset:
  fixes E :: "'w ee_env"
  assumes resolved: "args_project = (case cli_project of Some p \<Rightarrow> Some p | None \<Rightarrow> env_project)"
  shows "(args_project = None \<or> args_project = Some [] \<longrightarrow>
            main E cli_project env_project s =
              Some (Inl (Exit 2),
                    s\<lparr>trace := trace s @
                         [Print (Parser_error ''Provide --project or set GOOGLE_CLOUD_PROJECT'')]\<rparr>)) \<and>
         (args_project = Some project \<and> project \<noteq> [] \<longrightarrow>
            demo_asset_id project = ''projects/'' @ project @ ''/assets/demo/null_island_ecosystems'' \<and>
            collection (demo_task (demo_asset_id project)) = [land, water] \<and>
            assetId (demo_task (demo_asset_id project)) = demo_asset_id project \<and>
            (fst (getAsset E (world s) (demo_asset_id project)) \<longrightarrow>
               (\<exists>s'. main E cli_project env_project s = Some (Inr (), s') \<and>
                  calls (trace s') = calls (trace s) @
                    [Ee (Auth_default [''https://www.googleapis.com/auth/earthengine'']),
                     Ee (Initialize project),
                     Ee (GetAsset (demo_asset_id project))])) \<and>
            (\<not> fst (getAsset E (world s) (demo_asset_id project)) \<longrightarrow>
               (\<forall>n. (\<forall>i < n. fst (task_active E (after_polls E i (started E project (world s))))) \<and>
                     \<not> fst (task_active E (after_polls E n (started E project (world s)))) \<longrightarrow>
                  (\<exists>r s'. main E cli_project env_project s = Some (r, s') \<and>
                     calls (trace s') = calls (trace s) @
                       [Ee (Auth_default [''https://www.googleapis.com/auth/earthengine'']),
                        Ee (Initialize project),
                        Ee (GetAsset (demo_asset_id project)),
                        Ee (CreateAsset ''FOLDER'' (demo_folder_id project)),
                        Ee (ExportTableToAsset (demo_task (demo_asset_id project))),
                        Ee TaskStart]
                       @ concat (replicate n [Ee TaskActive, Sleep 2])
                       @ [Ee TaskActive, Ee TaskStatus])) \<and>
               ((\<forall>n. fst (task_active E (after_polls E n (started E project (world s))))) \<longrightarrow>
                  main E cli_project env_project s = None)))"
proof -
  have run: "main E cli_project env_project = upload_demo_asset E project"
    if "args_project = Some project \<and> project \<noteq> []"
    using resolved that by (auto simp add: main_def Let_def split: option.splits)
  show ?thesis
    apply (intro conjI impI allI)
    subgoal
      using resolved
      by (auto simp add: main_def then_may_def lift_def console_print_def emit_def raise_def
            Let_def split: option.splits)
    subgoal by (simp add: demo_asset_id_def)
    subgoal by (simp add: demo_task_def)
    subgoal by (simp add: demo_task_def)
    subgoal premises p
      using upload_existing [OF p(2)] by (simp add: run [OF p(1)])
    subgoal premises p for n
      using upload_absent [OF p(2)] p(3) unfolding run [OF p(1)] by blast
    subgoal premises p
      using upload_absent [OF p(2)] p(3) unfolding run [OF p(1)] by blast
    done
qed

theorem main_uploads_demo_asset_witness:
  "map_option (\<lambda>(r, s'). calls (trace s'))
     (main (ee_fake False ''COMPLETED'') None (Some ''demo'') \<lparr>world = 2, trace = []\<rparr>) =
     Some [Ee (Auth_default [''https://www.googleapis.com/auth/earthengine'']),
           Ee (Initialize ''demo''),
           Ee (GetAsset ''projects/demo/assets/demo/null_island_ecosystems''),
           Ee (CreateAsset ''FOLDER'' ''projects/demo/assets/demo''),
           Ee (ExportTableToAsset
                 \<lparr>collection = [land, water], description = ''null_island_ecosystems'',
                  assetId = ''projects/demo/assets/demo/null_island_ecosystems''\<rparr>),
           Ee TaskStart,
           Ee TaskActive, Sleep 2, Ee TaskActive, Sleep 2,
           Ee TaskActive, Ee TaskStatus] \<and>
   main (ee_fake False ''COMPLETED'') None None \<lparr>world = 2, trace = []\<rparr> =
     Some (Inl (Exit 2),
           \<lparr>world = 2,
            trace = [Print (Parser_error ''Provide --project or set GOOGLE_CLOUD_PROJECT'')]\<rparr>)"
proof -
  let ?E = "ee_fake False ''COMPLETED''"
  let ?s = "\<lparr>world = 2 :: nat, trace = []\<rparr>"
  have w: "started ?E ''demo'' (world ?s) = 2"
    by (simp add: started_def ee_fake_def)
  have polls: "(\<forall>i < 2. fst (task_active ?E (after_polls ?E i (started ?E ''demo'' (world ?s))))) \<and>
               \<not> fst (task_active ?E (after_polls ?E 2 (started ?E ''demo'' (world ?s))))"
    unfolding w by (simp add: ee_fake_def numeral_2_eq_2 less_Suc_eq)
  have absent: "\<not> fst (getAsset ?E (world ?s) (demo_asset_id ''demo''))"
    by (simp add: ee_fake_def)
  have given: "Some ''demo'' = (case None of Some p \<Rightarrow> Some p | None \<Rightarrow> Some ''demo'')"
    by simp
  have none: "None = (case None :: string option of Some p \<Rightarrow> Some p | None \<Rightarrow> None)"
    by simp
  from main_uploads_demo_asset [OF given, of ?E ?s "''demo''"] absent polls
  obtain r s' where "main ?E None (Some ''demo'') ?s = Some (r, s')"
    and "calls (trace s') = calls (trace ?s) @
           [Ee (Auth_default [''https://www.googleapis.com/auth/earthengine'']),
            Ee (Initialize ''demo''),
            Ee (GetAsset (demo_asset_id ''demo'')),
            Ee (CreateAsset ''FOLDER'' (demo_folder_id ''demo'')),
            Ee (ExportTableToAsset (demo_task (demo_asset_id ''demo''))),
            Ee TaskStart]
           @ concat (replicate 2 [Ee TaskActive, Sleep 2])
           @ [Ee TaskActive, Ee TaskStatus]"
    by blast
  then have first: "map_option (\<lambda>(r, s'). calls (trace s')) (main ?E None (Some ''demo'') ?s) =
     Some [Ee (Auth_default [''https://www.googleapis.com/auth/earthengine'']),
           Ee (Initialize ''demo''),
           Ee (GetAsset ''projects/demo/assets/demo/null_island_ecosystems''),
           Ee (CreateAsset ''FOLDER'' ''projects/demo/assets/demo''),
           Ee (ExportTableToAsset
                 \<lparr>collection = [land, water], description = ''null_island_ecosystems'',
                  assetId = ''projects/demo/assets/demo/null_island_ecosystems''\<rparr>),
           Ee TaskStart,
           Ee TaskActive, Sleep 2, Ee TaskActive, Sleep 2,
           Ee TaskActive, Ee TaskStatus]"
    by (simp add: demo_asset_id_def demo_folder_id_def demo_task_def numeral_2_eq_2)
  from main_uploads_demo_asset [OF none, of ?E ?s]
  have second: "main ?E None None ?s =
     Some (Inl (Exit 2),
           \<lparr>world = 2,
            trace = [Print (Parser_error ''Provide --project or set GOOGLE_CLOUD_PROJECT'')]\<rparr>)"
    by simp
  from first second show ?thesis by simp
qed

end
